theory Spec2Isabelle
  imports Main
begin

section \<open>Exceptions, effects and the retry wrapper\<close>

text \<open>
  The deployer talks to the provider through boto3 clients and fails with Python
  exceptions. An exception is either a botocore \<open>ClientError\<close> (or one of the modelled
  subclasses a client exposes under \<open>client.exceptions\<close>), which carries the name of its
  most specific class and the error code found at \<open>exc.response["Error"]["Code"]\<close>, or
  some other Python exception (\<open>ValueError\<close>, \<open>KeyError\<close>, \<open>NameError\<close>, botocore's
  \<open>WaiterError\<close>, ...), identified by its class name.
\<close>

datatype exc =
    ClientError string string
  | PyError string

fun is_ClientError :: "exc \<Rightarrow> bool" where
  "is_ClientError (ClientError cls code) = True"
| "is_ClientError (PyError cls) = False"

text \<open>
  What the wrapper itself does, in order: each invocation of the wrapped function, each
  warning it logs (attempt, attempts, exception) and each \<open>time.sleep\<close> with its
  duration. The wrapped function works on its own state \<open>'s\<close> and cannot touch this log.
\<close>

datatype event =
    Invoked
  | Warned int int exc
  | Slept int

text \<open>
  \<open>time.sleep(secs)\<close> on an integer: CPython keeps the duration as a signed 64-bit
  count of nanoseconds and raises \<open>OverflowError\<close> when it does not fit, then raises
  \<open>ValueError\<close> when it is negative; otherwise it sleeps and returns. \<open>time_sleep\<close>
  gives the exception raised, if any. (The backoff is taken to be an integer number of
  seconds, as the default \<open>2\<close> is.)
\<close>

definition sleep_limit :: int where
  "sleep_limit = 9223372036"

definition time_sleep :: "int \<Rightarrow> exc option" where
  "time_sleep secs =
     (if secs < - sleep_limit \<or> sleep_limit < secs then Some (PyError ''OverflowError'')
      else if secs < 0 then Some (PyError ''ValueError'')
      else None)"

text \<open>
  \<open>retryable\<close>: the loop \<open>for attempt in range(1, attempts + 1)\<close>. The result is
  \<open>Some v\<close> when the wrapped function returned \<open>v\<close> and \<open>None\<close> when the loop body
  never ran and the wrapper fell off its end (Python's implicit \<open>None\<close>). An exception
  of \<open>time.sleep\<close> is raised inside the \<open>except\<close> block and leaves the wrapper.
\<close>

function retry_loop ::
  "('s \<Rightarrow> (exc + 'a) \<times> 's) \<Rightarrow> int \<Rightarrow> int \<Rightarrow> int \<Rightarrow> 's \<times> event list
     \<Rightarrow> (exc + 'a option) \<times> ('s \<times> event list)" where
  "retry_loop func attempts delay attempt (s, lg) =
     (if attempts < attempt then (Inr None, (s, lg))
      else (case func s of
          (Inr v, s') \<Rightarrow> (Inr (Some v), (s', lg @ [Invoked]))
        | (Inl e, s') \<Rightarrow>
            (if is_ClientError e then
               (if attempt = attempts then (Inl e, (s', lg @ [Invoked]))
                else (case time_sleep (delay * attempt) of
                    Some x \<Rightarrow> (Inl x, (s', lg @ [Invoked, Warned attempt attempts e]))
                  | None \<Rightarrow>
                      retry_loop func attempts delay (attempt + 1)
                        (s', lg @ [Invoked, Warned attempt attempts e,
                                   Slept (delay * attempt)])))
             else (Inl e, (s', lg @ [Invoked])))))"
  by pat_completeness auto
termination
  by (relation "measure (\<lambda>(func, attempts, delay, attempt, w). nat (attempts + 1 - attempt))") auto

definition retryable ::
  "('s \<Rightarrow> (exc + 'a) \<times> 's) \<Rightarrow> int \<Rightarrow> int \<Rightarrow> 's \<times> event list
     \<Rightarrow> (exc + 'a option) \<times> ('s \<times> event list)" where
  "retryable func attempts delay w = retry_loop func attempts delay 1 w"

text \<open>The defaults of \<open>kwargs.pop("max_attempts", 5)\<close> and \<open>kwargs.pop("backoff_seconds", 2)\<close>.\<close>

definition default_max_attempts :: int where
  "default_max_attempts = 5"

definition default_backoff_seconds :: int where
  "default_backoff_seconds = 2"

text \<open>Reading the wrapper's log: how often the wrapped function ran, and the sleeps.\<close>

fun invocations :: "event list \<Rightarrow> nat" where
  "invocations [] = 0"
| "invocations (Invoked # es) = Suc (invocations es)"
| "invocations (e # es) = invocations es"

fun sleeps :: "event list \<Rightarrow> int list" where
  "sleeps [] = []"
| "sleeps (Slept d # es) = d # sleeps es"
| "sleeps (e # es) = sleeps es"

fun is_Warned :: "event \<Rightarrow> bool" where
  "is_Warned (Warned attempt attempts e) = True"
| "is_Warned e = False"

text \<open>The log without its warnings: invocations and sleeps in the order they happened.\<close>

definition timeline :: "event list \<Rightarrow> event list" where
  "timeline lg = filter (\<lambda>e. \<not> is_Warned e) lg"

text \<open>What the wrapper hands to its caller for a result of the wrapped function.\<close>

fun passed_on :: "exc + 'a \<Rightarrow> exc + 'a option" where
  "passed_on (Inl e) = Inl e"
| "passed_on (Inr v) = Inr (Some v)"

text \<open>The state after \<open>k\<close> invocations of \<open>func\<close>, one after the other, from \<open>s\<close>.\<close>

definition state_after :: "('s \<Rightarrow> 'r \<times> 's) \<Rightarrow> nat \<Rightarrow> 's \<Rightarrow> 's" where
  "state_after func k s = ((\<lambda>t. snd (func t)) ^^ k) s"




section \<open>The provider boundary\<close>

text \<open>
  A Python \<open>dict\<close> with string keys is an association list in insertion order.
  \<open>dict_set\<close> is \<open>d[k] = v\<close> (an existing key keeps its position), \<open>dict_merge\<close> is
  \<open>{**d, **extra}\<close>.
\<close>

type_synonym tagset = "(string \<times> string) list"

fun dict_set :: "('k \<times> 'v) list \<Rightarrow> 'k \<Rightarrow> 'v \<Rightarrow> ('k \<times> 'v) list" where
  "dict_set [] k v = [(k, v)]"
| "dict_set ((k', v') # kvs) k v =
     (if k' = k then (k, v) # kvs else (k', v') # dict_set kvs k v)"

fun dict_merge :: "('k \<times> 'v) list \<Rightarrow> ('k \<times> 'v) list \<Rightarrow> ('k \<times> 'v) list" where
  "dict_merge d [] = d"
| "dict_merge d ((k, v) # extra) = dict_merge (dict_set d k v) extra"

text \<open>
  \<open>_tags(name, extra)\<close>: the items of \<open>{"Name": name, **extra}\<close> as a list of
  (Key, Value) pairs.
\<close>

definition mk_tags :: "string \<Rightarrow> tagset \<Rightarrow> tagset" where
  "mk_tags name extra = dict_merge [(''Name'', name)] extra"

text \<open>\<open>sep.join(xs)\<close> and the slice \<open>xs[:n]\<close>, for negative \<open>n\<close> as well.\<close>

fun join :: "string \<Rightarrow> string list \<Rightarrow> string" where
  "join sep [] = []"
| "join sep [x] = x"
| "join sep (x # y # ys) = x @ sep @ join sep (y # ys)"

definition slice_to :: "'a list \<Rightarrow> int \<Rightarrow> 'a list" where
  "slice_to xs n = (if 0 \<le> n then take (nat n) xs else take (length xs - nat (- n)) xs)"

text \<open>
  A security group rule is a dict; an auto scaling group is described by the \<open>params\<close>
  dict that \<open>ensure_auto_scaling_group\<close> builds.
\<close>

type_synonym rule = "(string \<times> string) list"

record asg_params =
  AutoScalingGroupName :: string
  LaunchTemplateId :: string
  VPCZoneIdentifier :: string
  DesiredCapacity :: int
  MinSize :: int
  MaxSize :: int
  Tags :: "(string \<times> string \<times> bool) list"

text \<open>
  The provider operations the modelled managers call, each with the arguments the source
  passes. For \<open>CreateRoute\<close> and \<open>CreateBucket\<close> an optional argument is \<open>None\<close> when
  the source leaves the key out of \<open>params\<close>. \<open>WaitNatGatewayAvailable\<close> is
  \<open>get_waiter("nat_gateway_available").wait(NatGatewayIds=...)\<close>. The operations from
  \<open>DescribeRouteTables\<close> on belong to the methods that are not modelled (route tables
  and associations, security groups, instance profiles, launch templates, scaling
  policies, secrets, databases, bucket encryption); they carry the arguments that
  identify the resource.
\<close>

datatype call =
    DescribeVpcs string
  | CreateVpc string tagset
  | ModifyVpcAttribute string string bool
  | DescribeInternetGateways string
  | CreateInternetGateway tagset
  | AttachInternetGateway string string
  | DescribeAvailabilityZones string
  | DescribeSubnets string string
  | CreateSubnet string string string tagset
  | ModifySubnetAttribute string bool
  | CreateRoute string string "string option" "string option"
  | AllocateAddress string tagset
  | CreateNatGateway string string tagset
  | WaitNatGatewayAvailable "string list"
  | DescribeSecurityGroupRules string string
  | AuthorizeSecurityGroupIngress string "rule list"
  | AuthorizeSecurityGroupEgress string "rule list"
  | DescribeAutoScalingGroups "string list"
  | UpdateAutoScalingGroup asg_params
  | CreateAutoScalingGroup asg_params
  | HeadBucket string
  | CreateBucket string "string option"
  | PutBucketVersioning string string
  | DescribeRouteTables string string
  | CreateRouteTable string tagset
  | AssociateRouteTable string string
  | DescribeSecurityGroups string string
  | CreateSecurityGroup string string string tagset
  | GetInstanceProfile string
  | CreateInstanceProfile string
  | AddRoleToInstanceProfile string string
  | DescribeLaunchTemplates string
  | CreateLaunchTemplate string
  | PutScalingPolicy string string
  | GetSecretValue string
  | DescribeDBInstances string
  | CreateDBInstance string
  | PutBucketEncryption string

text \<open>
  What the source reads from a response: the identifiers of the listed resources
  (\<open>Ids\<close>, for the describe calls), the identifier of the created resource (\<open>Id\<close>), or
  nothing (\<open>Done\<close>).
\<close>

datatype resp =
    Ids "string list"
  | Id string
  | Done

text \<open>
  A client (\<open>self.ec2\<close>, \<open>self.s3\<close>, ...) answers a call from the provider's state
  \<open>'p\<close> with an exception or a response, and a new provider state. A manager runs on the
  provider state together with the trace of the calls issued so far, each with the answer
  it got. The driver runs on that and the retry wrapper's log.
\<close>

type_synonym 'p api = "call \<Rightarrow> 'p \<Rightarrow> (exc + resp) \<times> 'p"

type_synonym entry = "call \<times> (exc + resp)"

type_synonym 'p sess = "'p \<times> entry list"

type_synonym 'p world = "'p sess \<times> event list"

definition invoke :: "'p api \<Rightarrow> call \<Rightarrow> 'p sess \<Rightarrow> (exc + resp) \<times> 'p sess" where
  "invoke client c s = (case client c (fst s) of (r, p') \<Rightarrow> (r, (p', snd s @ [(c, r)])))"

definition trace_of :: "'p world \<Rightarrow> entry list" where
  "trace_of w = snd (fst w)"

definition log_of :: "'p world \<Rightarrow> event list" where
  "log_of w = snd w"

text \<open>Sequencing: an exception ends the computation, as a Python \<open>raise\<close> does.\<close>

definition ret :: "'a \<Rightarrow> 's \<Rightarrow> (exc + 'a) \<times> 's" where
  "ret v s = (Inr v, s)"

definition throw :: "exc \<Rightarrow> 's \<Rightarrow> (exc + 'a) \<times> 's" where
  "throw e s = (Inl e, s)"

definition and_then ::
  "('s \<Rightarrow> (exc + 'a) \<times> 's) \<Rightarrow> ('a \<Rightarrow> 's \<Rightarrow> (exc + 'b) \<times> 's) \<Rightarrow> 's \<Rightarrow> (exc + 'b) \<times> 's" where
  "and_then m f s = (case m s of (Inl e, s') \<Rightarrow> (Inl e, s') | (Inr v, s') \<Rightarrow> f v s')"

text \<open>
  Reading a response. \<open>response.get("Vpcs")\<close> and the like give the listed identifiers,
  and a value that counts as false (\<open>None\<close>, or the default \<open>[]\<close>) when the response
  has no such key: that is \<open>listed\<close>. Indexing, as in \<open>response["AvailabilityZones"]\<close>
  for the listed identifiers and \<open>response["Vpc"]["VpcId"]\<close> for a new identifier, raises
  \<open>KeyError\<close> when the key is missing: that is \<open>ids_of\<close> and \<open>id_of\<close>.
\<close>

fun listed :: "resp \<Rightarrow> string list" where
  "listed (Ids xs) = xs"
| "listed (Id x) = []"
| "listed Done = []"

definition ids_of :: "resp \<Rightarrow> 's \<Rightarrow> (exc + string list) \<times> 's" where
  "ids_of r = (case r of Ids xs \<Rightarrow> ret xs | _ \<Rightarrow> throw (PyError ''KeyError''))"

definition id_of :: "resp \<Rightarrow> 's \<Rightarrow> (exc + string) \<times> 's" where
  "id_of r = (case r of Id x \<Rightarrow> ret x | _ \<Rightarrow> throw (PyError ''KeyError''))"

text \<open>A call outside the retry wrapper leaves the wrapper's log alone.\<close>

definition unwrapped :: "('s \<Rightarrow> 'r \<times> 's) \<Rightarrow> 's \<times> event list \<Rightarrow> 'r \<times> ('s \<times> event list)" where
  "unwrapped m w = (case m (fst w) of (r, s') \<Rightarrow> (r, (s', snd w)))"

record 'p AWSClients =
  ec2 :: "'p api"
  autoscaling :: "'p api"
  rds :: "'p api"
  s3 :: "'p api"
  iam :: "'p api"
  secretsmanager :: "'p api"

section \<open>The resource managers\<close>

text \<open>
  Each \<open>@retryable\<close> method is modelled twice: \<open>f_body\<close> is the method as written,
  \<open>f\<close> is what the decorator makes of it and what callers call, with the
  \<open>max_attempts\<close> and \<open>backoff_seconds\<close> keyword arguments made explicit. Calls to
  \<open>LOGGER.info\<close> are left out.
\<close>

subsection \<open>VPCManager\<close>

definition ensure_vpc_body ::
  "'p api \<Rightarrow> string \<Rightarrow> string \<Rightarrow> tagset \<Rightarrow> 'p sess \<Rightarrow> (exc + string) \<times> 'p sess" where
  "ensure_vpc_body client name cidr tags =
     and_then (invoke client (DescribeVpcs name)) (\<lambda>r.
     (let existing = listed r in
       case existing of
         vpc_id # _ \<Rightarrow> ret vpc_id
       | [] \<Rightarrow>
           and_then (invoke client (CreateVpc cidr (mk_tags name tags))) (\<lambda>response.
           and_then (id_of response) (\<lambda>vpc_id.
           and_then (invoke client (ModifyVpcAttribute vpc_id ''EnableDnsSupport'' True)) (\<lambda>_.
           and_then (invoke client (ModifyVpcAttribute vpc_id ''EnableDnsHostnames'' True)) (\<lambda>_.
           ret vpc_id))))))"

definition ensure_vpc ::
  "'p api \<Rightarrow> string \<Rightarrow> string \<Rightarrow> tagset \<Rightarrow> int \<Rightarrow> int \<Rightarrow> 'p world
     \<Rightarrow> (exc + string option) \<times> 'p world" where
  "ensure_vpc client name cidr tags max_attempts backoff_seconds =
     retryable (ensure_vpc_body client name cidr tags) max_attempts backoff_seconds"

definition ensure_internet_gateway_body ::
  "'p api \<Rightarrow> string \<Rightarrow> string \<Rightarrow> tagset \<Rightarrow> 'p sess \<Rightarrow> (exc + string) \<times> 'p sess" where
  "ensure_internet_gateway_body client vpc_id name tags =
     and_then (invoke client (DescribeInternetGateways vpc_id)) (\<lambda>r.
     (let igws = listed r in
       case igws of
         igw_id # _ \<Rightarrow> ret igw_id
       | [] \<Rightarrow>
           and_then (invoke client (CreateInternetGateway (mk_tags name tags))) (\<lambda>igw.
           and_then (id_of igw) (\<lambda>igw_id.
           and_then (invoke client (AttachInternetGateway igw_id vpc_id)) (\<lambda>_.
           ret igw_id)))))"

definition ensure_internet_gateway ::
  "'p api \<Rightarrow> string \<Rightarrow> string \<Rightarrow> tagset \<Rightarrow> int \<Rightarrow> int \<Rightarrow> 'p world
     \<Rightarrow> (exc + string option) \<times> 'p world" where
  "ensure_internet_gateway client vpc_id name tags max_attempts backoff_seconds =
     retryable (ensure_internet_gateway_body client vpc_id name tags) max_attempts backoff_seconds"

definition ensure_subnet_body ::
  "'p api \<Rightarrow> string \<Rightarrow> string \<Rightarrow> string \<Rightarrow> string \<Rightarrow> bool \<Rightarrow> tagset
     \<Rightarrow> 'p sess \<Rightarrow> (exc + string) \<times> 'p sess" where
  "ensure_subnet_body client name vpc_id cidr az public tags =
     and_then (invoke client (DescribeSubnets vpc_id cidr)) (\<lambda>r.
     (let existing = listed r in
       case existing of
         subnet_id # _ \<Rightarrow> ret subnet_id
       | [] \<Rightarrow>
           and_then (invoke client (CreateSubnet vpc_id cidr az (mk_tags name tags))) (\<lambda>subnet.
           and_then (id_of subnet) (\<lambda>subnet_id.
           and_then (if public then invoke client (ModifySubnetAttribute subnet_id True)
                     else ret Done) (\<lambda>_.
           ret subnet_id)))))"

definition ensure_subnet ::
  "'p api \<Rightarrow> string \<Rightarrow> string \<Rightarrow> string \<Rightarrow> string \<Rightarrow> bool \<Rightarrow> tagset \<Rightarrow> int \<Rightarrow> int
     \<Rightarrow> 'p world \<Rightarrow> (exc + string option) \<times> 'p world" where
  "ensure_subnet client name vpc_id cidr az public tags max_attempts backoff_seconds =
     retryable (ensure_subnet_body client name vpc_id cidr az public tags)
       max_attempts backoff_seconds"

subsection \<open>RouteTableManager\<close>

text \<open>\<open>if gateway_id:\<close> holds for a string that is neither \<open>None\<close> nor empty.\<close>

fun truthy :: "string option \<Rightarrow> bool" where
  "truthy None = False"
| "truthy (Some x) = (x \<noteq> [])"

text \<open>
  \<open>create_route(**params)\<close>, where \<open>params\<close> has the keys \<open>GatewayId\<close> and
  \<open>NatGatewayId\<close> only for arguments that are set.
\<close>

definition create_route :: "string \<Rightarrow> string \<Rightarrow> string option \<Rightarrow> string option \<Rightarrow> call" where
  "create_route route_table_id destination_cidr gateway_id nat_gateway_id =
     CreateRoute route_table_id destination_cidr
       (if truthy gateway_id then gateway_id else None)
       (if truthy nat_gateway_id then nat_gateway_id else None)"

definition ensure_route_body ::
  "'p api \<Rightarrow> string \<Rightarrow> string \<Rightarrow> string option \<Rightarrow> string option
     \<Rightarrow> 'p sess \<Rightarrow> (exc + unit) \<times> 'p sess" where
  "ensure_route_body client route_table_id destination_cidr gateway_id nat_gateway_id s =
     (case invoke client
             (create_route route_table_id destination_cidr gateway_id nat_gateway_id) s of
        (Inr _, s') \<Rightarrow> (Inr (), s')
      | (Inl e, s') \<Rightarrow>
          (case e of
             ClientError cls code \<Rightarrow>
               if code \<noteq> ''RouteAlreadyExists'' then (Inl e, s') else (Inr (), s')
           | PyError cls \<Rightarrow> (Inl e, s')))"

definition ensure_route ::
  "'p api \<Rightarrow> string \<Rightarrow> string \<Rightarrow> string option \<Rightarrow> string option \<Rightarrow> int \<Rightarrow> int
     \<Rightarrow> 'p world \<Rightarrow> (exc + unit option) \<times> 'p world" where
  "ensure_route client route_table_id destination_cidr gateway_id nat_gateway_id
       max_attempts backoff_seconds =
     retryable (ensure_route_body client route_table_id destination_cidr gateway_id nat_gateway_id)
       max_attempts backoff_seconds"

subsection \<open>NATGatewayManager\<close>

definition ensure_nat_gateway_body ::
  "'p api \<Rightarrow> string \<Rightarrow> string \<Rightarrow> tagset \<Rightarrow> 'p sess \<Rightarrow> (exc + string) \<times> 'p sess" where
  "ensure_nat_gateway_body client subnet_id name tags =
     and_then (invoke client (AllocateAddress ''vpc'' (mk_tags name tags))) (\<lambda>eip.
     and_then (id_of eip) (\<lambda>allocation_id.
     and_then (invoke client (CreateNatGateway subnet_id allocation_id (mk_tags name tags))) (\<lambda>nat.
     and_then (id_of nat) (\<lambda>nat_gateway_id.
     and_then (invoke client (WaitNatGatewayAvailable [nat_gateway_id])) (\<lambda>_.
     ret nat_gateway_id)))))"

definition ensure_nat_gateway ::
  "'p api \<Rightarrow> string \<Rightarrow> string \<Rightarrow> tagset \<Rightarrow> int \<Rightarrow> int \<Rightarrow> 'p world
     \<Rightarrow> (exc + string option) \<times> 'p world" where
  "ensure_nat_gateway client subnet_id name tags max_attempts backoff_seconds =
     retryable (ensure_nat_gateway_body client subnet_id name tags) max_attempts backoff_seconds"

subsection \<open>SecurityGroupManager\<close>

text \<open>
  The module calls \<open>_normalize_rules(rules)\<close> but neither defines nor imports that name,
  so evaluating the call raises \<open>NameError\<close>.
\<close>

definition normalize_rules :: "rule list \<Rightarrow> 's \<Rightarrow> (exc + rule list) \<times> 's" where
  "normalize_rules rules = throw (PyError ''NameError'')"

definition authorize_if_missing ::
  "'p api \<Rightarrow> string \<Rightarrow> rule list \<Rightarrow> bool \<Rightarrow> 'p sess \<Rightarrow> (exc + unit) \<times> 'p sess" where
  "authorize_if_missing client group_id rules egress =
     (let direction = (if egress then ''true'' else ''false'') in
      and_then (invoke client (DescribeSecurityGroupRules group_id direction)) (\<lambda>r.
      (let existing = listed r in
        if existing \<noteq> [] then ret ()
        else
          and_then (normalize_rules rules) (\<lambda>permissions.
          and_then (if egress then invoke client (AuthorizeSecurityGroupEgress group_id permissions)
                    else invoke client (AuthorizeSecurityGroupIngress group_id permissions)) (\<lambda>_.
          ret ())))))"

definition configure_rules ::
  "'p api \<Rightarrow> string \<Rightarrow> rule list \<Rightarrow> rule list \<Rightarrow> 'p sess \<Rightarrow> (exc + unit) \<times> 'p sess" where
  "configure_rules client group_id ingress_rules egress_rules =
     and_then (if ingress_rules \<noteq> [] then authorize_if_missing client group_id ingress_rules False
               else ret ()) (\<lambda>_.
     and_then (if egress_rules \<noteq> [] then authorize_if_missing client group_id egress_rules True
               else ret ()) (\<lambda>_.
     ret ()))"

subsection \<open>AutoScalingManager\<close>

text \<open>
  \<open>except self.autoscaling.exceptions.ResourceInUseFault\<close> catches the exceptions of
  that class; every other exception of the describe call leaves the method.
\<close>

fun is_ResourceInUseFault :: "exc \<Rightarrow> bool" where
  "is_ResourceInUseFault (ClientError cls code) = (cls = ''ResourceInUseFault'')"
| "is_ResourceInUseFault (PyError cls) = False"

text \<open>The \<open>params\<close> dict of \<open>ensure_auto_scaling_group\<close>.\<close>

definition auto_scaling_params ::
  "string \<Rightarrow> string \<Rightarrow> string list \<Rightarrow> int \<Rightarrow> int \<Rightarrow> int \<Rightarrow> tagset \<Rightarrow> asg_params" where
  "auto_scaling_params name launch_template_id subnets desired minimum maximum tags =
     \<lparr> AutoScalingGroupName = name,
       LaunchTemplateId = launch_template_id,
       VPCZoneIdentifier = join '','' subnets,
       DesiredCapacity = desired,
       MinSize = minimum,
       MaxSize = maximum,
       Tags = map (\<lambda>(k, v). (k, v, True)) tags \<rparr>"

definition ensure_auto_scaling_group_body ::
  "'p api \<Rightarrow> string \<Rightarrow> string \<Rightarrow> string list \<Rightarrow> int \<Rightarrow> int \<Rightarrow> int \<Rightarrow> tagset
     \<Rightarrow> 'p sess \<Rightarrow> (exc + unit) \<times> 'p sess" where
  "ensure_auto_scaling_group_body client name launch_template_id subnets desired minimum maximum
       tags s =
     (let probe =
        (case invoke client (DescribeAutoScalingGroups [name]) s of
           (Inr _, s') \<Rightarrow> (Inr True, s')
         | (Inl e, s') \<Rightarrow> if is_ResourceInUseFault e then (Inr False, s') else (Inl e, s'));
          params = auto_scaling_params name launch_template_id subnets desired minimum maximum tags
      in case probe of
           (Inl e, s') \<Rightarrow> (Inl e, s')
         | (Inr exists, s') \<Rightarrow>
             and_then (if exists then invoke client (UpdateAutoScalingGroup params)
                       else invoke client (CreateAutoScalingGroup params)) (\<lambda>_.
             ret ()) s')"

definition ensure_auto_scaling_group ::
  "'p api \<Rightarrow> string \<Rightarrow> string \<Rightarrow> string list \<Rightarrow> int \<Rightarrow> int \<Rightarrow> int \<Rightarrow> tagset \<Rightarrow> int \<Rightarrow> int
     \<Rightarrow> 'p world \<Rightarrow> (exc + unit option) \<times> 'p world" where
  "ensure_auto_scaling_group client name launch_template_id subnets desired minimum maximum tags
       max_attempts backoff_seconds =
     retryable (ensure_auto_scaling_group_body client name launch_template_id subnets desired
                  minimum maximum tags) max_attempts backoff_seconds"

subsection \<open>S3Manager\<close>

definition ensure_bucket_body ::
  "'p api \<Rightarrow> string \<Rightarrow> string \<Rightarrow> 'p sess \<Rightarrow> (exc + unit) \<times> 'p sess" where
  "ensure_bucket_body client bucket region s =
     (case invoke client (HeadBucket bucket) s of
        (Inr _, s') \<Rightarrow> (Inr (), s')
      | (Inl e, s') \<Rightarrow>
          (case e of
             ClientError cls error_code \<Rightarrow>
               if error_code \<in> set [''404'', ''NoSuchBucket''] then
                 and_then (invoke client
                             (CreateBucket bucket
                                (if region \<noteq> ''us-east-1'' then Some region else None))) (\<lambda>_.
                 ret ()) s'
               else (Inl e, s')
           | PyError cls \<Rightarrow> (Inl e, s')))"

definition ensure_bucket ::
  "'p api \<Rightarrow> string \<Rightarrow> string \<Rightarrow> int \<Rightarrow> int \<Rightarrow> 'p world \<Rightarrow> (exc + unit option) \<times> 'p world" where
  "ensure_bucket client bucket region max_attempts backoff_seconds =
     retryable (ensure_bucket_body client bucket region) max_attempts backoff_seconds"

definition enable_versioning :: "'p api \<Rightarrow> string \<Rightarrow> 'p sess \<Rightarrow> (exc + unit) \<times> 'p sess" where
  "enable_versioning client bucket =
     and_then (invoke client (PutBucketVersioning bucket ''Enabled'')) (\<lambda>_. ret ())"

section \<open>The driver\<close>

text \<open>
  What \<open>main\<close> reads from the configuration document (\<open>load_config\<close> is outside the
  model; the driver takes the loaded document and the clients of \<open>init_clients\<close>).
\<close>

record config =
  project_name :: string
  project_region :: string
  project_environment :: string
  vpc_cidr :: string
  vpc_az_count :: int
  public_cidr_blocks :: "string list"
  private_cidr_blocks :: "string list"
  raw_bucket :: string
  curated_bucket :: string

text \<open>
  The value a decorated method hands back to the driver. The driver passes no
  \<open>max_attempts\<close>, so the wrapper runs with five attempts and never falls off its loop;
  the \<open>None\<close> case is here for totality only.
\<close>

definition returned :: "'a option \<Rightarrow> 's \<Rightarrow> (exc + 'a) \<times> 's" where
  "returned r = (case r of Some v \<Rightarrow> ret v | None \<Rightarrow> throw (PyError ''TypeError''))"

text \<open>
  The two subnet loops of \<open>main\<close>, which differ in the tier (\<open>"public"\<close> or
  \<open>"private"\<close>) and the \<open>public\<close> flag only: for each \<open>(cidr, az)\<close> of the zip, one
  \<open>ensure_subnet\<close> call named \<open>f"{tier}-{az}"\<close> with tags \<open>{**tags, "Tier": tier}\<close>, its
  result appended to the list.
\<close>

fun subnets_loop ::
  "'p api \<Rightarrow> string \<Rightarrow> bool \<Rightarrow> string \<Rightarrow> tagset \<Rightarrow> (string \<times> string) list \<Rightarrow> string list
     \<Rightarrow> 'p world \<Rightarrow> (exc + string list) \<times> 'p world" where
  "subnets_loop client tier public vpc_id tags [] subnets = ret subnets"
| "subnets_loop client tier public vpc_id tags ((cidr, az) # rest) subnets =
     and_then (ensure_subnet client (tier @ ''-'' @ az) vpc_id cidr az public
                 (dict_set tags ''Tier'' tier) default_max_attempts default_backoff_seconds) (\<lambda>r.
     and_then (returned r) (\<lambda>subnet_id.
     subnets_loop client tier public vpc_id tags rest (subnets @ [subnet_id])))"

text \<open>
  \<open>main\<close>. It returns nothing and prints a table; the model returns the rows of that
  table.
\<close>

definition main ::
  "'p AWSClients \<Rightarrow> config \<Rightarrow> 'p world \<Rightarrow> (exc + (string \<times> string) list) \<times> 'p world" where
  "main clients config =
     (let name = project_name config;
          region = project_region config;
          env = project_environment config;
          tags = [(''Project'', name), (''Environment'', env)]
      in
      and_then (ensure_vpc (ec2 clients) (name @ ''-'' @ env) (vpc_cidr config) tags
                  default_max_attempts default_backoff_seconds) (\<lambda>r.
      and_then (returned r) (\<lambda>vpc_id.
      and_then (ensure_internet_gateway (ec2 clients) vpc_id (name @ ''-'' @ env @ ''-igw'') tags
                  default_max_attempts default_backoff_seconds) (\<lambda>r.
      and_then (returned r) (\<lambda>igw_id.
      and_then (unwrapped (invoke (ec2 clients) (DescribeAvailabilityZones region))) (\<lambda>r.
      and_then (ids_of r) (\<lambda>azs.
      let az_names = slice_to azs (vpc_az_count config) in
      and_then (subnets_loop (ec2 clients) ''public'' True vpc_id tags
                  (zip (public_cidr_blocks config) az_names) []) (\<lambda>public_subnets.
      and_then (subnets_loop (ec2 clients) ''private'' False vpc_id tags
                  (zip (private_cidr_blocks config) az_names) []) (\<lambda>private_subnets.
      and_then (ensure_bucket (s3 clients) (raw_bucket config) region
                  default_max_attempts default_backoff_seconds) (\<lambda>_.
      and_then (unwrapped (enable_versioning (s3 clients) (raw_bucket config))) (\<lambda>_.
      and_then (ensure_bucket (s3 clients) (curated_bucket config) region
                  default_max_attempts default_backoff_seconds) (\<lambda>_.
      and_then (unwrapped (enable_versioning (s3 clients) (curated_bucket config))) (\<lambda>_.
      ret [(''VPC'', vpc_id),
           (''InternetGateway'', igw_id),
           (''PublicSubnets'', join '', '' public_subnets),
           (''PrivateSubnets'', join '', '' private_subnets)])))))))))))))"

section \<open>Providers to run the managers against\<close>

text \<open>
  The provider is outside the repository. Two stand-ins supply concrete inputs. The
  first answers the calls it receives from a prepared list of answers, whatever the call,
  and with \<open>Done\<close> once the list is used up.
\<close>

definition scripted :: "((exc + resp) list) api" where
  "scripted c answers = (case answers of [] \<Rightarrow> (Inr Done, []) | r # rs \<Rightarrow> (r, rs))"

text \<open>
  The second keeps what was created, as the provider would: VPCs under their Name tag,
  gateways under the VPC they are attached to, subnets under (VPC, CIDR), routes under
  (route table, destination), buckets by name. It answers a describe call with the
  matching identifiers, a duplicate route with \<open>RouteAlreadyExists\<close> and a missing
  bucket with \<open>404\<close>, and numbers the identifiers it hands out.
\<close>

record cloud =
  held_vpcs :: "(string \<times> string) list"
  held_igws :: "(string \<times> string) list"
  held_subnets :: "((string \<times> string) \<times> string) list"
  held_routes :: "(string \<times> string) list"
  held_buckets :: "string list"
  held_zones :: "string list"
  issued :: nat

definition fresh :: "string list \<Rightarrow> cloud" where
  "fresh azs = \<lparr> held_vpcs = [], held_igws = [], held_subnets = [], held_routes = [],
                 held_buckets = [], held_zones = azs, issued = 0 \<rparr>"

definition digit :: "nat \<Rightarrow> char" where
  "digit n = ''0123456789'' ! (n mod 10)"

fun decimal :: "nat \<Rightarrow> string" where
  "decimal n = (if n < 10 then [digit n] else decimal (n div 10) @ [digit n])"

definition new_id :: "string \<Rightarrow> cloud \<Rightarrow> string" where
  "new_id prefix p = prefix @ decimal (Suc (issued p))"

definition matching :: "('k \<times> string) list \<Rightarrow> 'k \<Rightarrow> string list" where
  "matching table k = map snd (filter (\<lambda>(k', v). k' = k) table)"

definition name_tag :: "tagset \<Rightarrow> string" where
  "name_tag tags = (case map_of tags ''Name'' of Some n \<Rightarrow> n | None \<Rightarrow> [])"

fun in_memory :: "cloud api" where
  "in_memory (DescribeVpcs name) p = (Inr (Ids (matching (held_vpcs p) name)), p)"
| "in_memory (CreateVpc cidr tags) p =
     (Inr (Id (new_id ''vpc-'' p)),
      p\<lparr> held_vpcs := held_vpcs p @ [(name_tag tags, new_id ''vpc-'' p)],
         issued := Suc (issued p) \<rparr>)"
| "in_memory (DescribeInternetGateways vpc_id) p =
     (Inr (Ids (matching (held_igws p) vpc_id)), p)"
| "in_memory (CreateInternetGateway tags) p =
     (Inr (Id (new_id ''igw-'' p)), p\<lparr> issued := Suc (issued p) \<rparr>)"
| "in_memory (AttachInternetGateway igw_id vpc_id) p =
     (Inr Done, p\<lparr> held_igws := held_igws p @ [(vpc_id, igw_id)] \<rparr>)"
| "in_memory (DescribeAvailabilityZones region) p = (Inr (Ids (held_zones p)), p)"
| "in_memory (DescribeSubnets vpc_id cidr) p =
     (Inr (Ids (matching (held_subnets p) (vpc_id, cidr))), p)"
| "in_memory (CreateSubnet vpc_id cidr az tags) p =
     (Inr (Id (new_id ''subnet-'' p)),
      p\<lparr> held_subnets := held_subnets p @ [((vpc_id, cidr), new_id ''subnet-'' p)],
         issued := Suc (issued p) \<rparr>)"
| "in_memory (CreateRoute route_table_id destination gateway_id nat_gateway_id) p =
     (if (route_table_id, destination) \<in> set (held_routes p)
      then (Inl (ClientError ''ClientError'' ''RouteAlreadyExists''), p)
      else (Inr Done,
            p\<lparr> held_routes := held_routes p @ [(route_table_id, destination)] \<rparr>))"
| "in_memory (HeadBucket bucket) p =
     (if bucket \<in> set (held_buckets p) then (Inr Done, p)
      else (Inl (ClientError ''ClientError'' ''404''), p))"
| "in_memory (CreateBucket bucket location) p =
     (Inr Done, p\<lparr> held_buckets := held_buckets p @ [bucket] \<rparr>)"
| "in_memory c p = (Inr Done, p)"

definition in_memory_clients :: "cloud AWSClients" where
  "in_memory_clients = \<lparr> ec2 = in_memory, autoscaling = in_memory, rds = in_memory,
                          s3 = in_memory, iam = in_memory, secretsmanager = in_memory \<rparr>"

definition base_config :: config where
  "base_config = \<lparr> project_name = ''cda'', project_region = ''eu-west-1'',
                    project_environment = ''dev'', vpc_cidr = ''10.0.0.0/16'', vpc_az_count = 2,
                    public_cidr_blocks = [''10.0.0.0/24'', ''10.0.1.0/24''],
                    private_cidr_blocks = [''10.0.10.0/24'', ''10.0.11.0/24''],
                    raw_bucket = ''cda-raw'', curated_bucket = ''cda-curated'' \<rparr>"

section \<open>Attempts of a decorated method\<close>

text \<open>
  A run of a decorated method is a sequence of attempts, each an invocation of the method
  as written: its result and the trace entries it added. \<open>outcome\<close> is what the wrapper
  hands to the caller after such a sequence when no sleep raised, and \<open>retried\<close> says of
  a result that the wrapper goes on to another attempt after it when attempts are left.
\<close>

definition outcome :: "(exc + 'a) list \<Rightarrow> exc + 'a option" where
  "outcome rs = (if rs = [] then Inr None else passed_on (last rs))"

fun retried :: "exc + 'a \<Rightarrow> bool" where
  "retried (Inl e) = is_ClientError e"
| "retried (Inr v) = False"

text \<open>
  \<open>attempt_shape body Q\<close>: whatever the state, one invocation of \<open>body\<close> only adds
  entries to the trace, and its result \<open>r\<close> and the added entries \<open>new\<close> satisfy
  \<open>Q r new\<close>.
\<close>

definition attempt_shape ::
  "('p sess \<Rightarrow> (exc + 'a) \<times> 'p sess) \<Rightarrow> ((exc + 'a) \<Rightarrow> entry list \<Rightarrow> bool) \<Rightarrow> bool" where
  "attempt_shape body Q \<longleftrightarrow>
     (\<forall>s. \<exists>new. snd (snd (body s)) = snd s @ new \<and> Q (fst (body s)) new)"

text \<open>
  \<open>run_from body Q n d k w out as\<close>: the loop of the wrapper around \<open>body\<close>, with \<open>n\<close>
  attempts allowed and backoff \<open>d\<close>, entered at attempt \<open>k\<close> in \<open>w\<close>, ended in \<open>out\<close>
  after the attempts \<open>as\<close>, numbered \<open>k\<close> to \<open>k + length as - 1\<close>.
  \<^item> The state is the one after \<open>length as\<close> invocations of \<open>body\<close>, one after the other;
    the trace grew by the entries of the attempts in order, and every attempt satisfies
    \<open>Q\<close>; the log shows one invocation per attempt.
  \<^item> After every attempt but the last the wrapper slept \<open>d\<close> times the number of the
    attempt, and every attempt but the last failed with a \<open>ClientError\<close>.
  \<^item> No attempt is made exactly when \<open>n < k\<close>, and no attempt has a number above \<open>n\<close>.
  \<^item> The run ends in one of two ways. When the last attempt failed with a \<open>ClientError\<close>
    and attempts were left, the sleep after it raised, and the caller gets that exception.
    Otherwise (the last attempt returned, or failed with something else, or was attempt
    \<open>n\<close>) the caller gets the outcome of the last attempt.
  \<open>run_of\<close> is a run of the whole loop, from attempt 1.
\<close>

definition run_from ::
  "('p sess \<Rightarrow> (exc + 'a) \<times> 'p sess) \<Rightarrow> ((exc + 'a) \<Rightarrow> entry list \<Rightarrow> bool) \<Rightarrow> int \<Rightarrow> int \<Rightarrow> int
     \<Rightarrow> 'p world \<Rightarrow> (exc + 'a option) \<times> 'p world \<Rightarrow> ((exc + 'a) \<times> entry list) list \<Rightarrow> bool" where
  "run_from body Q n d k w out as \<longleftrightarrow>
     fst (snd out) = state_after body (length as) (fst w)
     \<and> trace_of (snd out) = trace_of w @ concat (map snd as)
     \<and> list_all (\<lambda>(r, new). Q r new) as
     \<and> invocations (log_of (snd out)) = invocations (log_of w) + length as
     \<and> sleeps (log_of (snd out))
         = sleeps (log_of w) @ map (\<lambda>j. d * j) [k..k + int (length as) - 2]
     \<and> list_all retried (butlast (map fst as))
     \<and> (as = [] \<longleftrightarrow> n < k)
     \<and> (as \<noteq> [] \<longrightarrow> k + int (length as) - 1 \<le> n)
     \<and> (if as \<noteq> [] \<and> retried (last (map fst as)) \<and> k + int (length as) - 1 < n
         then (case time_sleep (d * (k + int (length as) - 1)) of
                 Some x \<Rightarrow> fst out = Inl x
               | None \<Rightarrow> False)
         else fst out = outcome (map fst as))"

abbreviation run_of ::
  "('p sess \<Rightarrow> (exc + 'a) \<times> 'p sess) \<Rightarrow> ((exc + 'a) \<Rightarrow> entry list \<Rightarrow> bool) \<Rightarrow> int \<Rightarrow> int
     \<Rightarrow> 'p world \<Rightarrow> (exc + 'a option) \<times> 'p world \<Rightarrow> ((exc + 'a) \<times> entry list) list \<Rightarrow> bool" where
  "run_of body Q n d w out as \<equiv> run_from body Q n d 1 w out as"

text \<open>
  \<open>grows_by tr P m\<close>: whatever the state, running \<open>m\<close> only adds entries to the trace
  (read off the state by \<open>tr\<close>), and each added entry satisfies \<open>P\<close>.
\<close>

definition grows_by :: "('st \<Rightarrow> entry list) \<Rightarrow> (entry \<Rightarrow> bool) \<Rightarrow> ('st \<Rightarrow> 'r \<times> 'st) \<Rightarrow> bool" where
  "grows_by tr P m \<longleftrightarrow> (\<forall>s. \<exists>new. tr (snd (m s)) = tr s @ new \<and> list_all P new)"

section \<open>The shape of one attempt, method by method\<close>

text \<open>
  What one invocation of a method as written adds to the trace, and the result it has
  then. These predicates state the properties; the methods above are the code.
  \<open>failure\<close> is the result of an attempt that ends at a call which raised, or whose
  response lacks the key the method reads.
\<close>

fun failure :: "exc + resp \<Rightarrow> exc + 'a" where
  "failure (Inl e) = Inl e"
| "failure (Inr x) = Inl (PyError ''KeyError'')"

text \<open>
  \<open>ensure_subnet\<close>: a probe that finds a subnet ends the attempt; otherwise the subnet is
  created, and a public one then gets \<open>MapPublicIpOnLaunch\<close>.
\<close>

fun subnet_attempt ::
  "string \<Rightarrow> string \<Rightarrow> string \<Rightarrow> bool \<Rightarrow> tagset \<Rightarrow> exc + string \<Rightarrow> entry list \<Rightarrow> bool" where
  "subnet_attempt vpc_id cidr az public tags r [(d, Inl e)] =
     (d = DescribeSubnets vpc_id cidr \<and> r = Inl e)"
| "subnet_attempt vpc_id cidr az public tags r [(d, Inr x)] =
     (d = DescribeSubnets vpc_id cidr
      \<and> (case listed x of subnet_id # others \<Rightarrow> r = Inr subnet_id | [] \<Rightarrow> False))"
| "subnet_attempt vpc_id cidr az public tags r [(d, Inr x), (c, Inr (Id subnet_id))] =
     (d = DescribeSubnets vpc_id cidr \<and> listed x = []
      \<and> c = CreateSubnet vpc_id cidr az tags \<and> \<not> public \<and> r = Inr subnet_id)"
| "subnet_attempt vpc_id cidr az public tags r [(d, Inr x), (c, Inr (Id subnet_id)), (m, a)] =
     (d = DescribeSubnets vpc_id cidr \<and> listed x = []
      \<and> c = CreateSubnet vpc_id cidr az tags \<and> public
      \<and> m = ModifySubnetAttribute subnet_id True \<and> r = map_sum id (\<lambda>_. subnet_id) a)"
| "subnet_attempt vpc_id cidr az public tags r [(d, Inr x), (c, a)] =
     (d = DescribeSubnets vpc_id cidr \<and> listed x = []
      \<and> c = CreateSubnet vpc_id cidr az tags \<and> r = failure a)"
| "subnet_attempt vpc_id cidr az public tags r new = False"

text \<open>
  \<open>ensure_auto_scaling_group\<close>: a describe call that returns is followed by the update
  call, one that raises \<open>ResourceInUseFault\<close> by the create call, and any other
  exception of the describe call ends the attempt.
\<close>

fun asg_attempt :: "string \<Rightarrow> asg_params \<Rightarrow> exc + unit \<Rightarrow> entry list \<Rightarrow> bool" where
  "asg_attempt name params r [(d, Inr x), (c, a)] =
     (d = DescribeAutoScalingGroups [name] \<and> c = UpdateAutoScalingGroup params
      \<and> r = map_sum id (\<lambda>_. ()) a)"
| "asg_attempt name params r [(d, Inl e), (c, a)] =
     (d = DescribeAutoScalingGroups [name] \<and> is_ResourceInUseFault e
      \<and> c = CreateAutoScalingGroup params \<and> r = map_sum id (\<lambda>_. ()) a)"
| "asg_attempt name params r [(d, Inl e)] =
     (d = DescribeAutoScalingGroups [name] \<and> \<not> is_ResourceInUseFault e \<and> r = Inl e)"
| "asg_attempt name params r new = False"

text \<open>
  \<open>ensure_nat_gateway\<close>: allocate, create, wait, in that order and starting with the
  allocation; the attempt succeeds only when the wait returned.
\<close>

fun nat_gateway_attempt :: "string \<Rightarrow> tagset \<Rightarrow> exc + string \<Rightarrow> entry list \<Rightarrow> bool" where
  "nat_gateway_attempt subnet_id tags r
       [(al, Inr (Id allocation_id)), (c, Inr (Id nat_gateway_id)), (wt, a)] =
     (al = AllocateAddress ''vpc'' tags \<and> c = CreateNatGateway subnet_id allocation_id tags
      \<and> wt = WaitNatGatewayAvailable [nat_gateway_id]
      \<and> r = map_sum id (\<lambda>_. nat_gateway_id) a)"
| "nat_gateway_attempt subnet_id tags r [(al, Inr (Id allocation_id)), (c, a)] =
     (al = AllocateAddress ''vpc'' tags \<and> c = CreateNatGateway subnet_id allocation_id tags
      \<and> r = failure a)"
| "nat_gateway_attempt subnet_id tags r [(al, a)] =
     (al = AllocateAddress ''vpc'' tags \<and> r = failure a)"
| "nat_gateway_attempt subnet_id tags r new = False"

fun is_lookup :: "call \<Rightarrow> bool" where
  "is_lookup (DescribeVpcs name) = True"
| "is_lookup (DescribeInternetGateways vpc_id) = True"
| "is_lookup (DescribeAvailabilityZones region) = True"
| "is_lookup (DescribeSubnets vpc_id cidr) = True"
| "is_lookup (DescribeSecurityGroupRules group_id direction) = True"
| "is_lookup (DescribeAutoScalingGroups names) = True"
| "is_lookup (HeadBucket bucket) = True"
| "is_lookup (DescribeRouteTables vpc_id name) = True"
| "is_lookup (DescribeSecurityGroups vpc_id name) = True"
| "is_lookup (GetInstanceProfile name) = True"
| "is_lookup (DescribeLaunchTemplates name) = True"
| "is_lookup (GetSecretValue name) = True"
| "is_lookup (DescribeDBInstances identifier) = True"
| "is_lookup c = False"

text \<open>
  \<open>ensure_route\<close>: one create-route call; the attempt fails exactly when that call
  raised something other than a \<open>ClientError\<close> with code \<open>RouteAlreadyExists\<close>.
\<close>

fun swallowed :: "exc \<Rightarrow> bool" where
  "swallowed (ClientError cls code) = (code = ''RouteAlreadyExists'')"
| "swallowed (PyError cls) = False"

fun route_attempt ::
  "string \<Rightarrow> string \<Rightarrow> string option \<Rightarrow> string option \<Rightarrow> exc + unit \<Rightarrow> entry list \<Rightarrow> bool" where
  "route_attempt route_table_id destination_cidr gateway_id nat_gateway_id r [(c, a)] =
     (c = create_route route_table_id destination_cidr gateway_id nat_gateway_id
      \<and> r = (case a of Inr x \<Rightarrow> Inr () | Inl e \<Rightarrow> if swallowed e then Inr () else Inl e))"
| "route_attempt route_table_id destination_cidr gateway_id nat_gateway_id r new = False"

text \<open>
  \<open>ensure_bucket\<close>: a probe that returns ends the attempt; one that raises a
  \<open>ClientError\<close> with code \<open>404\<close> or \<open>NoSuchBucket\<close> is followed by the create call,
  with the region as location constraint unless it is \<open>us-east-1\<close>; any other exception
  of the probe ends the attempt with that exception.
\<close>

fun absent_bucket :: "exc \<Rightarrow> bool" where
  "absent_bucket (ClientError cls code) = (code = ''404'' \<or> code = ''NoSuchBucket'')"
| "absent_bucket (PyError cls) = False"

fun bucket_attempt :: "string \<Rightarrow> string \<Rightarrow> exc + unit \<Rightarrow> entry list \<Rightarrow> bool" where
  "bucket_attempt bucket region r [(h, Inr x)] = (h = HeadBucket bucket \<and> r = Inr ())"
| "bucket_attempt bucket region r [(h, Inl e)] =
     (h = HeadBucket bucket \<and> \<not> absent_bucket e \<and> r = Inl e)"
| "bucket_attempt bucket region r [(h, Inl e), (c, a)] =
     (h = HeadBucket bucket \<and> absent_bucket e
      \<and> c = CreateBucket bucket (if region \<noteq> ''us-east-1'' then Some region else None)
      \<and> r = map_sum id (\<lambda>_. ()) a)"
| "bucket_attempt bucket region r new = False"

section \<open>The calls of the driver\<close>

text \<open>
  The calls \<open>ensure_vpc\<close> may issue, and the calls the driver may issue after it for the
  VPC \<open>vpc_id\<close>: those of the gateway, the availability zones, the subnets and the
  buckets, where every call that names a VPC names \<open>vpc_id\<close>. Calls for route tables, NAT
  gateways, security groups, instance profiles, launch templates, auto scaling groups,
  secrets and databases are in neither set.
\<close>

fun vpc_call :: "call \<Rightarrow> bool" where
  "vpc_call (DescribeVpcs name) = True"
| "vpc_call (CreateVpc cidr tags) = True"
| "vpc_call (ModifyVpcAttribute vpc_id attribute v) = True"
| "vpc_call c = False"

fun downstream_call :: "string \<Rightarrow> call \<Rightarrow> bool" where
  "downstream_call vpc_id (DescribeInternetGateways v) = (v = vpc_id)"
| "downstream_call vpc_id (CreateInternetGateway tags) = True"
| "downstream_call vpc_id (AttachInternetGateway igw_id v) = (v = vpc_id)"
| "downstream_call vpc_id (DescribeAvailabilityZones region) = True"
| "downstream_call vpc_id (DescribeSubnets v cidr) = (v = vpc_id)"
| "downstream_call vpc_id (CreateSubnet v cidr az tags) = (v = vpc_id)"
| "downstream_call vpc_id (ModifySubnetAttribute subnet_id v) = True"
| "downstream_call vpc_id (HeadBucket bucket) = True"
| "downstream_call vpc_id (CreateBucket bucket location) = True"
| "downstream_call vpc_id (PutBucketVersioning bucket status) = True"
| "downstream_call vpc_id c = False"

text \<open>\<open>extends_by P w w'\<close>: the trace of \<open>w'\<close> is that of \<open>w\<close> and then calls that satisfy \<open>P\<close>.\<close>

definition extends_by :: "(call \<Rightarrow> bool) \<Rightarrow> 'p world \<Rightarrow> 'p world \<Rightarrow> bool" where
  "extends_by P w w' \<longleftrightarrow>
     (\<exists>new. trace_of w' = trace_of w @ new \<and> list_all (\<lambda>(c, a). P c) new)"

text \<open>
  \<open>ensured_subnets client tier public vpc_id tags pairs ids w w'\<close>: from \<open>w\<close> to \<open>w'\<close>,
  one \<open>ensure_subnet\<close> call for each \<open>(cidr, az)\<close> of \<open>pairs\<close>, in order, each for the
  VPC \<open>vpc_id\<close>, each started in the world the one before left; \<open>ids\<close> are the
  identifiers they returned.
\<close>

fun ensured_subnets ::
  "'p api \<Rightarrow> string \<Rightarrow> bool \<Rightarrow> string \<Rightarrow> tagset \<Rightarrow> (string \<times> string) list \<Rightarrow> string list
     \<Rightarrow> 'p world \<Rightarrow> 'p world \<Rightarrow> bool" where
  "ensured_subnets client tier public vpc_id tags [] ids w w' \<longleftrightarrow> ids = [] \<and> w' = w"
| "ensured_subnets client tier public vpc_id tags ((cidr, az) # rest) ids w w' \<longleftrightarrow>
     (case ids of
        [] \<Rightarrow> False
      | subnet_id # others \<Rightarrow>
          (case ensure_subnet client (tier @ ''-'' @ az) vpc_id cidr az public
                  (dict_set tags ''Tier'' tier) default_max_attempts default_backoff_seconds w of
             (Inr (Some found), t) \<Rightarrow>
               found = subnet_id \<and> ensured_subnets client tier public vpc_id tags rest others t w'
           | (Inr None, t) \<Rightarrow> False
           | (Inl e, t) \<Rightarrow> False))"
section \<open>Properties of the retry wrapper\<close>

lemma invocations_append [simp]: "invocations (xs @ ys) = invocations xs + invocations ys"
  by (induction xs rule: invocations.induct) auto

lemma sleeps_append [simp]: "sleeps (xs @ ys) = sleeps xs @ sleeps ys"
  by (induction xs rule: sleeps.induct) auto

lemmas retry_loop_unfold = retry_loop.simps

declare retry_loop.simps [simp del]

lemma state_after_0 [simp]: "state_after func 0 s = s"
  by (simp add: state_after_def)

lemma state_after_Suc: "state_after func (Suc k) s = state_after func k (snd (func s))"
  unfolding state_after_def using funpow_swap1 [of "\<lambda>t. snd (func t)" k s] by simp

text \<open>
  The four ways one iteration of the loop can go on a failed invocation, and the two
  ways it ends otherwise.
\<close>

lemma retry_loop_done:
  assumes "attempts < attempt"
  shows "retry_loop func attempts delay attempt (s, lg) = (Inr None, (s, lg))"
  using assms by (simp add: retry_loop_unfold)

lemma retry_loop_success:
  assumes "attempt \<le> attempts" and "func s = (Inr v, s')"
  shows "retry_loop func attempts delay attempt (s, lg) = (Inr (Some v), (s', lg @ [Invoked]))"
  using assms by (simp add: retry_loop_unfold)

lemma retry_loop_propagate:
  assumes "attempt \<le> attempts" and "func s = (Inl e, s')"
    and "\<not> is_ClientError e \<or> attempt = attempts"
  shows "retry_loop func attempts delay attempt (s, lg) = (Inl e, (s', lg @ [Invoked]))"
  using assms by (auto simp add: retry_loop_unfold)

lemma retry_loop_sleep_raises:
  assumes "attempt < attempts" and "func s = (Inl e, s')" and "is_ClientError e"
    and "time_sleep (delay * attempt) = Some x"
  shows "retry_loop func attempts delay attempt (s, lg)
           = (Inl x, (s', lg @ [Invoked, Warned attempt attempts e]))"
  using assms by (simp add: retry_loop_unfold)

lemma retry_loop_again:
  assumes "attempt < attempts" and "func s = (Inl e, s')" and "is_ClientError e"
    and "time_sleep (delay * attempt) = None"
  shows "retry_loop func attempts delay attempt (s, lg)
           = retry_loop func attempts delay (attempt + 1)
               (s', lg @ [Invoked, Warned attempt attempts e, Slept (delay * attempt)])"
  using assms by (simp add: retry_loop_unfold [of func attempts delay attempt])

lemma retry_loop_cases:
  assumes "attempt \<le> attempts"
  obtains
    (success) v s' where "func s = (Inr v, s')"
  | (propagate) e s' where "func s = (Inl e, s')" "\<not> is_ClientError e \<or> attempt = attempts"
  | (sleep_raises) e s' x where "func s = (Inl e, s')" "is_ClientError e" "attempt < attempts"
      "time_sleep (delay * attempt) = Some x"
  | (again) e s' where "func s = (Inl e, s')" "is_ClientError e" "attempt < attempts"
      "time_sleep (delay * attempt) = None"
proof -
  obtain r s' where fs: "func s = (r, s')" by (cases "func s")
  show ?thesis
  proof (cases r)
    case (Inr v)
    with fs show ?thesis by (auto intro: success)
  next
    case (Inl e)
    show ?thesis
    proof (cases "\<not> is_ClientError e \<or> attempt = attempts")
      case True
      with fs Inl show ?thesis by (auto intro: propagate)
    next
      case False
      with assms have lt: "attempt < attempts" and ce: "is_ClientError e" by simp_all
      show ?thesis
      proof (cases "time_sleep (delay * attempt)")
        case None
        with fs Inl lt ce show ?thesis by (auto intro: again)
      next
        case (Some x)
        with fs Inl lt ce show ?thesis by (auto intro: sleep_raises)
      qed
    qed
  qed
qed





lemma timeline_append [simp]: "timeline (xs @ ys) = timeline xs @ timeline ys"
  by (simp add: timeline_def)












section \<open>Runs as sequences of attempts\<close>

lemma outcome_Cons: "rs \<noteq> [] \<Longrightarrow> outcome (r # rs) = outcome rs"
  by (simp add: outcome_def)

lemma outcome_single: "outcome [r] = passed_on r"
  by (simp add: outcome_def)

lemma passed_on_retried: "retried r \<Longrightarrow> \<exists>e. r = Inl e \<and> is_ClientError e"
  by (cases r) auto

lemma run_from_Nil:
  assumes "n < k"
  shows "run_from body Q n d k w (Inr None, w) []"
  using assms by (simp add: run_from_def outcome_def)

lemma run_from_last:
  assumes "k \<le> n" and "body s = (r, s')" and "snd s' = snd s @ new" and "Q r new"
    and "\<not> retried r \<or> k = n"
  shows "run_from body Q n d k (s, lg) (passed_on r, (s', lg @ [Invoked])) [(r, new)]"
  using assms
  by (auto simp add: run_from_def trace_of_def log_of_def outcome_def state_after_Suc)

lemma run_from_sleep_raises:
  assumes "k < n" and "body s = (Inl e, s')" and "snd s' = snd s @ new" and "Q (Inl e) new"
    and "is_ClientError e" and "time_sleep (d * k) = Some x"
  shows "run_from body Q n d k (s, lg) (Inl x, (s', lg @ [Invoked, Warned k n e]))
           [(Inl e, new)]"
  using assms
  by (simp add: run_from_def trace_of_def log_of_def state_after_Suc)

lemma run_from_Cons:
  assumes lt: "k < n" and body: "body s = (Inl e, s')" and new: "snd s' = snd s @ new"
    and q: "Q (Inl e) new" and ce: "is_ClientError e"
    and run: "run_from body Q n d (k + 1) (s', lg @ [Invoked, Warned k n e, Slept (d * k)]) out as"
  shows "run_from body Q n d k (s, lg) out ((Inl e, new) # as)"
proof -
  from run lt have ne: "as \<noteq> []" by (auto simp add: run_from_def)
  then have len: "1 \<le> int (length as)" by (cases as) simp_all
  have up: "[k..k + int (length as) - 1] = k # [k + 1..k + int (length as) - 1]"
    using len by (intro upto_rec1) linarith
  have state: "state_after body (Suc (length as)) s = state_after body (length as) s'"
    using body by (simp add: state_after_Suc)
  have num: "k + 1 + int (length as) - 1 = k + int (length as)"
    by simp
  from run ne lt new q ce show ?thesis
    unfolding run_from_def num
    by (auto simp add: trace_of_def log_of_def outcome_Cons state up
             split: if_splits option.splits)
qed

text \<open>Every run of the loop is such a sequence of attempts.\<close>

lemma retry_loop_attempts:
  assumes shape: "attempt_shape body Q"
  shows "\<exists>as. run_from body Q n d k w (retry_loop body n d k w) as"
  using shape
proof (induction body n d k w rule: retry_loop.induct)
  case (1 func attempts delay attempt s lg)
  show ?case
  proof (cases "attempts < attempt")
    case True
    then show ?thesis
      using run_from_Nil [of attempts attempt func Q delay "(s, lg)"]
      by (intro exI [of _ "[]"]) (simp add: retry_loop_done)
  next
    case False
    then have le: "attempt \<le> attempts" by simp
    have shape': "\<And>r t. func s = (r, t) \<Longrightarrow> \<exists>new. snd t = snd s @ new \<and> Q r new"
      using "1.prems" unfolding attempt_shape_def by (metis fst_conv snd_conv)
    from le show ?thesis
    proof (cases rule: retry_loop_cases [where func = func and s = s and delay = delay])
      case (success v s')
      from shape' [OF success] obtain new where new: "snd s' = snd s @ new" "Q (Inr v) new"
        by blast
      have "run_from func Q attempts delay attempt (s, lg)
              (passed_on (Inr v), (s', lg @ [Invoked])) [(Inr v, new)]"
        using le success new by (intro run_from_last) simp_all
      with le success show ?thesis
        by (intro exI [of _ "[(Inr v, new)]"]) (simp add: retry_loop_success)
    next
      case (propagate e s')
      from shape' [OF propagate(1)] obtain new where new: "snd s' = snd s @ new" "Q (Inl e) new"
        by blast
      have "run_from func Q attempts delay attempt (s, lg)
              (passed_on (Inl e), (s', lg @ [Invoked])) [(Inl e, new)]"
        using le propagate new by (intro run_from_last) auto
      with le propagate show ?thesis
        by (intro exI [of _ "[(Inl e, new)]"]) (simp add: retry_loop_propagate)
    next
      case (sleep_raises e s' x)
      from shape' [OF sleep_raises(1)] obtain new where
        new: "snd s' = snd s @ new" "Q (Inl e) new" by blast
      have "run_from func Q attempts delay attempt (s, lg)
              (Inl x, (s', lg @ [Invoked, Warned attempt attempts e])) [(Inl e, new)]"
        using sleep_raises new by (intro run_from_sleep_raises) simp_all
      with sleep_raises show ?thesis
        by (intro exI [of _ "[(Inl e, new)]"]) (simp add: retry_loop_sleep_raises)
    next
      case (again e s')
      from shape' [OF again(1)] obtain new where new: "snd s' = snd s @ new" "Q (Inl e) new"
        by blast
      let ?lg' = "lg @ [Invoked, Warned attempt attempts e, Slept (delay * attempt)]"
      have step: "retry_loop func attempts delay attempt (s, lg)
            = retry_loop func attempts delay (attempt + 1) (s', ?lg')"
        using again by (intro retry_loop_again) simp_all
      from "1.IH" [of "Inl e" s' e] again False "1.prems"
      obtain as where
        "run_from func Q attempts delay (attempt + 1) (s', ?lg')
           (retry_loop func attempts delay (attempt + 1) (s', ?lg')) as"
        by auto
      then have "run_from func Q attempts delay attempt (s, lg)
           (retry_loop func attempts delay attempt (s, lg)) ((Inl e, new) # as)"
        unfolding step using again new by (intro run_from_Cons) simp_all
      then show ?thesis by blast
    qed
  qed
qed

lemma retryable_attempts:
  assumes "attempt_shape body Q"
  shows "\<exists>as. run_of body Q n d w (retryable body n d w) as \<and> (1 \<le> n \<longrightarrow> as \<noteq> [])"
proof -
  from retry_loop_attempts [OF assms, of n d 1 w]
  obtain as where "run_from body Q n d 1 w (retryable body n d w) as"
    unfolding retryable_def by blast
  moreover from this have "1 \<le> n \<longrightarrow> as \<noteq> []" by (auto simp add: run_from_def)
  ultimately show ?thesis by blast
qed

section \<open>What a computation adds to the trace\<close>

lemma grows_byI:
  assumes "\<And>s. \<exists>new. tr (snd (m s)) = tr s @ new \<and> list_all P new"
  shows "grows_by tr P m"
  using assms by (simp add: grows_by_def)

lemma grows_byD:
  assumes "grows_by tr P m"
  obtains new where "tr (snd (m s)) = tr s @ new" and "list_all P new"
  using assms unfolding grows_by_def by blast

lemma grows_by_ret: "grows_by tr P (ret v)"
  by (simp add: grows_by_def ret_def)

lemma grows_by_throw: "grows_by tr P (throw e)"
  by (simp add: grows_by_def throw_def)

lemma grows_by_ids_of: "grows_by tr P (ids_of r)"
  by (cases r) (simp_all add: ids_of_def grows_by_ret grows_by_throw)

lemma grows_by_id_of: "grows_by tr P (id_of r)"
  by (cases r) (simp_all add: id_of_def grows_by_ret grows_by_throw)

lemma grows_by_returned: "grows_by tr P (returned r)"
  by (cases r) (simp_all add: returned_def grows_by_ret grows_by_throw)

lemma grows_by_invoke:
  assumes "\<And>a. P (c, a)"
  shows "grows_by snd P (invoke client c)"
  using assms by (auto simp add: grows_by_def invoke_def split: prod.splits)

lemma grows_by_and_then:
  assumes m: "grows_by tr P m" and f: "\<And>v. grows_by tr P (f v)"
  shows "grows_by tr P (and_then m f)"
proof (rule grows_byI)
  fix s
  obtain r s' where ms: "m s = (r, s')" by (cases "m s")
  from m obtain new where new: "tr (snd (m s)) = tr s @ new" "list_all P new"
    by (rule grows_byD)
  show "\<exists>new. tr (snd (and_then m f s)) = tr s @ new \<and> list_all P new"
  proof (cases r)
    case (Inl e)
    with ms new show ?thesis by (auto simp add: and_then_def)
  next
    case (Inr v)
    from f [of v] obtain new' where new': "tr (snd (f v s')) = tr s' @ new'" "list_all P new'"
      by (rule grows_byD)
    with ms new Inr show ?thesis
      by (intro exI [of _ "new @ new'"]) (simp add: and_then_def)
  qed
qed

lemma grows_by_if:
  assumes "b \<Longrightarrow> grows_by tr P m" and "\<not> b \<Longrightarrow> grows_by tr P m'"
  shows "grows_by tr P (if b then m else m')"
  using assms by simp

lemma grows_by_unwrapped:
  assumes "grows_by snd P m"
  shows "grows_by trace_of P (unwrapped m)"
proof (rule grows_byI)
  fix w :: "('a \<times> entry list) \<times> event list"
  from assms obtain new where "snd (snd (m (fst w))) = snd (fst w) @ new" "list_all P new"
    by (rule grows_byD)
  then show "\<exists>new. trace_of (snd (unwrapped m w)) = trace_of w @ new \<and> list_all P new"
    by (auto simp add: unwrapped_def trace_of_def split: prod.splits)
qed

lemma list_all_concat_attempts:
  assumes "list_all (\<lambda>(r, new). list_all P new) as"
  shows "list_all P (concat (map snd as))"
  using assms by (induction as) auto

lemma run_of_grows:
  assumes run: "run_from body Q n d k w out as" and each: "\<And>r new. Q r new \<Longrightarrow> list_all P new"
  shows "\<exists>new. trace_of (snd out) = trace_of w @ new \<and> list_all P new"
proof -
  from run have tr: "trace_of (snd out) = trace_of w @ concat (map snd as)"
    and all: "list_all (\<lambda>(r, new). Q r new) as"
    by (simp_all add: run_from_def)
  from all each have "list_all (\<lambda>(r, new). list_all P new) as"
    by (induction as) auto
  then have "list_all P (concat (map snd as))" by (rule list_all_concat_attempts)
  with tr show ?thesis by blast
qed

lemma grows_by_retryable:
  assumes body: "grows_by snd P body"
  shows "grows_by trace_of P (retryable body n d)"
proof (rule grows_byI)
  fix w :: "('a \<times> entry list) \<times> event list"
  have "attempt_shape body (\<lambda>r new. list_all P new)"
    using body unfolding attempt_shape_def grows_by_def by simp
  from retryable_attempts [OF this, of n d w]
  obtain as where "run_of body (\<lambda>r new. list_all P new) n d w (retryable body n d w) as"
    by blast
  then show "\<exists>new. trace_of (snd (retryable body n d w)) = trace_of w @ new \<and> list_all P new"
    by (rule run_of_grows) simp
qed

lemma grows_by_weaken:
  assumes "grows_by tr P m" and "\<And>x. P x \<Longrightarrow> P' x"
  shows "grows_by tr P' m"
proof (rule grows_byI)
  fix s
  from assms(1) obtain new where "tr (snd (m s)) = tr s @ new" "list_all P new"
    by (rule grows_byD)
  with assms(2) show "\<exists>new. tr (snd (m s)) = tr s @ new \<and> list_all P' new"
    by (auto simp add: list_all_iff)
qed

text \<open>With at least one attempt the wrapper never falls off its loop.\<close>

lemma retry_loop_not_None:
  "attempt \<le> attempts \<Longrightarrow> fst (retry_loop func attempts delay attempt w) \<noteq> Inr None"
proof (induction func attempts delay attempt w rule: retry_loop.induct)
  case (1 func attempts delay attempt s lg)
  from "1.prems" show ?case
  proof (cases rule: retry_loop_cases [where func = func and s = s and delay = delay])
    case (success v s')
    with "1.prems" show ?thesis by (simp add: retry_loop_success)
  next
    case (propagate e s')
    with "1.prems" show ?thesis by (simp add: retry_loop_propagate)
  next
    case (sleep_raises e s' x)
    then show ?thesis by (simp add: retry_loop_sleep_raises)
  next
    case (again e s')
    have "retry_loop func attempts delay attempt (s, lg)
            = retry_loop func attempts delay (attempt + 1)
                (s', lg @ [Invoked, Warned attempt attempts e, Slept (delay * attempt)])"
      using again by (intro retry_loop_again) simp_all
    with "1.IH" [of "Inl e" s' e] again "1.prems" show ?thesis by simp
  qed
qed

lemma retryable_default_returns:
  "fst (retryable func default_max_attempts default_backoff_seconds w) \<noteq> Inr None"
  unfolding retryable_def by (rule retry_loop_not_None) (simp add: default_max_attempts_def)

section \<open>Each method has its shape\<close>

lemmas run_defs = and_then_def invoke_def ret_def throw_def ids_of_def id_of_def

lemma ensure_subnet_body_shape:
  "attempt_shape (ensure_subnet_body client name vpc_id cidr az public tags)
     (subnet_attempt vpc_id cidr az public (mk_tags name tags))"
  unfolding attempt_shape_def ensure_subnet_body_def run_defs Let_def
  by (auto split: prod.splits sum.splits resp.splits list.splits)

lemma ensure_auto_scaling_group_body_shape:
  "attempt_shape
     (ensure_auto_scaling_group_body client name launch_template_id subnets desired minimum
        maximum tags)
     (asg_attempt name
        (auto_scaling_params name launch_template_id subnets desired minimum maximum tags))"
  unfolding attempt_shape_def ensure_auto_scaling_group_body_def run_defs Let_def
  by (auto split: prod.splits sum.splits)

lemma ensure_nat_gateway_body_shape:
  "attempt_shape (ensure_nat_gateway_body client subnet_id name tags)
     (nat_gateway_attempt subnet_id (mk_tags name tags))"
  unfolding attempt_shape_def ensure_nat_gateway_body_def run_defs
  by (auto split: prod.splits sum.splits resp.splits)

lemma ensure_route_body_shape:
  "attempt_shape (ensure_route_body client route_table_id destination_cidr gateway_id nat_gateway_id)
     (route_attempt route_table_id destination_cidr gateway_id nat_gateway_id)"
  unfolding attempt_shape_def ensure_route_body_def run_defs
  by (auto split: prod.splits sum.splits exc.splits)

lemma ensure_bucket_body_shape:
  "attempt_shape (ensure_bucket_body client bucket region) (bucket_attempt bucket region)"
  unfolding attempt_shape_def ensure_bucket_body_def run_defs
  by (auto split: prod.splits sum.splits exc.splits)

lemma retryable_first_success:
  assumes "1 \<le> n" and "body s = (Inr v, s')"
  shows "retryable body n d (s, lg) = (Inr (Some v), (s', lg @ [Invoked]))"
  using assms unfolding retryable_def by (intro retry_loop_success) simp_all

lemma retryable_first_failure:
  assumes "1 \<le> n" and "body s = (Inl e, s')" and "\<not> is_ClientError e \<or> n = 1"
  shows "retryable body n d (s, lg) = (Inl e, (s', lg @ [Invoked]))"
  using assms unfolding retryable_def by (intro retry_loop_propagate) auto

lemma retryable_sleep_raises:
  assumes "1 < n" and "body s = (Inl e, s')" and "is_ClientError e" and "time_sleep d = Some x"
  shows "retryable body n d (s, lg) = (Inl x, (s', lg @ [Invoked, Warned 1 n e]))"
  using assms unfolding retryable_def by (intro retry_loop_sleep_raises) simp_all

lemma retryable_second:
  assumes "1 < n" and "body s = (Inl e, s')" and "is_ClientError e" and "time_sleep d = None"
  shows "retryable body n d (s, lg)
           = retry_loop body n d 2 (s', lg @ [Invoked, Warned 1 n e, Slept d])"
  using assms retry_loop_again [of 1 n body s e s' d lg] unfolding retryable_def by simp

lemma retryable_second_success:
  assumes "1 < n" and "body s = (Inl e, s')" and "is_ClientError e" and "time_sleep d = None"
    and "body s' = (Inr v, s'')"
  shows "retryable body n d (s, lg)
           = (Inr (Some v), (s'', lg @ [Invoked, Warned 1 n e, Slept d, Invoked]))"
  using assms retry_loop_success [of 2 n body s' v s'' d "lg @ [Invoked, Warned 1 n e, Slept d]"]
  by (simp add: retryable_second)

lemma retryable_second_failure:
  assumes "1 < n" and "body s = (Inl e, s')" and "is_ClientError e" and "time_sleep d = None"
    and "body s' = (Inl e', s'')" and "\<not> is_ClientError e' \<or> n = 2"
  shows "retryable body n d (s, lg)
           = (Inl e', (s'', lg @ [Invoked, Warned 1 n e, Slept d, Invoked]))"
  using assms
    retry_loop_propagate [of 2 n body s' e' s'' d "lg @ [Invoked, Warned 1 n e, Slept d]"]
  by (auto simp add: retryable_second)

section \<open>Subnets\<close>

lemma scripted_simps [simp]:
  "scripted c [] = (Inr Done, [])"
  "scripted c (r # rs) = (r, rs)"
  by (simp_all add: scripted_def)

text \<open>
  Claim C4, as the code has it. A call of \<open>ensure_subnet\<close> with \<open>public = True\<close> is a
  sequence of attempts, each of which either finds a subnet for \<open>(vpc_id, cidr)\<close> and ends
  there, or creates the subnet and then sets \<open>MapPublicIpOnLaunch\<close> on it, or fails. In
  particular, when the first probe finds a subnet the call returns its identifier after
  that single describe call, with no modify-subnet-attribute call; when the first probe
  finds none and the creation succeeds, the modify-subnet-attribute call on the new subnet
  follows.
\<close>

theorem ensure_subnet_public:
  "(\<exists>as. run_of (ensure_subnet_body client name vpc_id cidr az True tags)
            (subnet_attempt vpc_id cidr az True (mk_tags name tags)) n d w
            (ensure_subnet client name vpc_id cidr az True tags n d w) as
          \<and> (1 \<le> n \<longrightarrow> as \<noteq> []))
   \<and> (1 \<le> n \<and> client (DescribeSubnets vpc_id cidr) p = (Inr (Ids (subnet_id # others)), p')
        \<longrightarrow> ensure_subnet client name vpc_id cidr az True tags n d ((p, tr), lg)
             = (Inr (Some subnet_id),
                ((p', tr @ [(DescribeSubnets vpc_id cidr, Inr (Ids (subnet_id # others)))]),
                 lg @ [Invoked])))
   \<and> (1 \<le> n \<and> client (DescribeSubnets vpc_id cidr) p = (Inr (Ids []), p')
        \<and> client (CreateSubnet vpc_id cidr az (mk_tags name tags)) p' = (Inr (Id new_subnet), p'')
        \<and> client (ModifySubnetAttribute new_subnet True) p'' = (Inr x, p''')
        \<longrightarrow> ensure_subnet client name vpc_id cidr az True tags n d ((p, tr), lg)
             = (Inr (Some new_subnet),
                ((p''', tr @ [(DescribeSubnets vpc_id cidr, Inr (Ids [])),
                            (CreateSubnet vpc_id cidr az (mk_tags name tags), Inr (Id new_subnet)),
                            (ModifySubnetAttribute new_subnet True, Inr x)]),
                 lg @ [Invoked])))"
proof (intro conjI impI)
  show "\<exists>as. run_of (ensure_subnet_body client name vpc_id cidr az True tags)
            (subnet_attempt vpc_id cidr az True (mk_tags name tags)) n d w
            (ensure_subnet client name vpc_id cidr az True tags n d w) as
          \<and> (1 \<le> n \<longrightarrow> as \<noteq> [])"
    unfolding ensure_subnet_def by (rule retryable_attempts [OF ensure_subnet_body_shape])
next
  assume a: "1 \<le> n \<and> client (DescribeSubnets vpc_id cidr) p = (Inr (Ids (subnet_id # others)), p')"
  then have "ensure_subnet_body client name vpc_id cidr az True tags (p, tr)
      = (Inr subnet_id, (p', tr @ [(DescribeSubnets vpc_id cidr, Inr (Ids (subnet_id # others)))]))"
    by (simp add: ensure_subnet_body_def run_defs Let_def)
  with a show "ensure_subnet client name vpc_id cidr az True tags n d ((p, tr), lg)
             = (Inr (Some subnet_id),
                ((p', tr @ [(DescribeSubnets vpc_id cidr, Inr (Ids (subnet_id # others)))]),
                 lg @ [Invoked]))"
    unfolding ensure_subnet_def by (intro retryable_first_success) simp_all
next
  assume a: "1 \<le> n \<and> client (DescribeSubnets vpc_id cidr) p = (Inr (Ids []), p')
        \<and> client (CreateSubnet vpc_id cidr az (mk_tags name tags)) p' = (Inr (Id new_subnet), p'')
        \<and> client (ModifySubnetAttribute new_subnet True) p'' = (Inr x, p''')"
  then have "ensure_subnet_body client name vpc_id cidr az True tags (p, tr)
      = (Inr new_subnet,
         (p''', tr @ [(DescribeSubnets vpc_id cidr, Inr (Ids [])),
                    (CreateSubnet vpc_id cidr az (mk_tags name tags), Inr (Id new_subnet)),
                    (ModifySubnetAttribute new_subnet True, Inr x)]))"
    by (simp add: ensure_subnet_body_def run_defs Let_def)
  with a show "ensure_subnet client name vpc_id cidr az True tags n d ((p, tr), lg)
             = (Inr (Some new_subnet),
                ((p''', tr @ [(DescribeSubnets vpc_id cidr, Inr (Ids [])),
                            (CreateSubnet vpc_id cidr az (mk_tags name tags), Inr (Id new_subnet)),
                            (ModifySubnetAttribute new_subnet True, Inr x)]),
                 lg @ [Invoked]))"
    unfolding ensure_subnet_def by (intro retryable_first_success) simp_all
qed

theorem ensure_subnet_public_witness:
  "ensure_subnet scripted ''public-a'' ''vpc-1'' ''10.0.0.0/24'' ''a'' True [] 5 2
       (([Inr (Ids [''subnet-1''])], []), [])
     = (Inr (Some ''subnet-1''),
        (([], [(DescribeSubnets ''vpc-1'' ''10.0.0.0/24'', Inr (Ids [''subnet-1'']))]), [Invoked]))
   \<and> ensure_subnet scripted ''public-a'' ''vpc-1'' ''10.0.0.0/24'' ''a'' True [] 5 2
       (([Inr (Ids []), Inr (Id ''subnet-1''), Inr Done], []), [])
     = (Inr (Some ''subnet-1''),
        (([], [(DescribeSubnets ''vpc-1'' ''10.0.0.0/24'', Inr (Ids [])),
               (CreateSubnet ''vpc-1'' ''10.0.0.0/24'' ''a'' [(''Name'', ''public-a'')],
                Inr (Id ''subnet-1'')),
               (ModifySubnetAttribute ''subnet-1'' True, Inr Done)]), [Invoked]))"
  using ensure_subnet_public [where client = scripted and n = 5 and d = 2 and tr = "[]" and lg = "[]"
          and vpc_id = "''vpc-1''" and cidr = "''10.0.0.0/24''" and az = "''a''"
          and name = "''public-a''" and tags = "[]"
          and p = "[Inr (Ids [''subnet-1''])]" and subnet_id = "''subnet-1''" and others = "[]"
          and p' = "[]"]
        ensure_subnet_public [where client = scripted and n = 5 and d = 2 and tr = "[]" and lg = "[]"
          and vpc_id = "''vpc-1''" and cidr = "''10.0.0.0/24''" and az = "''a''"
          and name = "''public-a''" and tags = "[]"
          and p = "[Inr (Ids []), Inr (Id ''subnet-1''), Inr Done]" and new_subnet = "''subnet-1''"
          and p' = "[Inr (Id ''subnet-1''), Inr Done]" and p'' = "[Inr Done]" and p''' = "[]"
          and x = Done]
  by (simp add: mk_tags_def)

text \<open>
  Claim C4 as stated fails for a subnet that already exists: the describe call is the
  only call issued, and auto-assignment of public addresses is not enabled.
\<close>

theorem ensure_subnet_existing_public_counterexample:
  "ensure_subnet scripted ''public-a'' ''vpc-1'' ''10.0.0.0/24'' ''a'' True [] 5 2
       (([Inr (Ids [''subnet-1''])], []), [])
     = (Inr (Some ''subnet-1''),
        (([], [(DescribeSubnets ''vpc-1'' ''10.0.0.0/24'', Inr (Ids [''subnet-1'']))]), [Invoked]))"
  by (simp add: ensure_subnet_def retryable_def retry_loop_unfold ensure_subnet_body_def run_defs)

section \<open>Auto scaling groups\<close>

text \<open>
  Claim C1, as the code has it. A call of \<open>ensure_auto_scaling_group\<close> is a sequence of
  attempts; in each, a describe call that raises \<open>ResourceInUseFault\<close> is followed by the
  create call (and no update call), a describe call that returns is followed by the update
  call (and no create call), and any other exception of the describe call ends the
  attempt. In particular, on the first attempt: an in-use fault followed by a successful
  create call, or a describe call that returns followed by a successful update call, is
  all the call issues.
\<close>

theorem ensure_auto_scaling_group_branch:
  "(\<exists>as. run_of (ensure_auto_scaling_group_body client name launch_template_id subnets desired
                   minimum maximum tags)
            (asg_attempt name
               (auto_scaling_params name launch_template_id subnets desired minimum maximum tags))
            n d w (ensure_auto_scaling_group client name launch_template_id subnets desired minimum
                 maximum tags n d w) as
          \<and> (1 \<le> n \<longrightarrow> as \<noteq> []))
   \<and> (1 \<le> n \<and> client (DescribeAutoScalingGroups [name]) p = (Inl e, p')
        \<and> is_ResourceInUseFault e
        \<and> client (CreateAutoScalingGroup
                     (auto_scaling_params name launch_template_id subnets desired minimum maximum
                        tags)) p' = (Inr x, p'')
        \<longrightarrow> ensure_auto_scaling_group client name launch_template_id subnets desired minimum
               maximum tags n d ((p, tr), lg)
             = (Inr (Some ()),
                ((p'', tr @ [(DescribeAutoScalingGroups [name], Inl e),
                             (CreateAutoScalingGroup
                                (auto_scaling_params name launch_template_id subnets desired
                                   minimum maximum tags), Inr x)]),
                 lg @ [Invoked])))
   \<and> (1 \<le> n \<and> client (DescribeAutoScalingGroups [name]) p = (Inr y, p')
        \<and> client (UpdateAutoScalingGroup
                     (auto_scaling_params name launch_template_id subnets desired minimum maximum
                        tags)) p' = (Inr x, p'')
        \<longrightarrow> ensure_auto_scaling_group client name launch_template_id subnets desired minimum
               maximum tags n d ((p, tr), lg)
             = (Inr (Some ()),
                ((p'', tr @ [(DescribeAutoScalingGroups [name], Inr y),
                             (UpdateAutoScalingGroup
                                (auto_scaling_params name launch_template_id subnets desired
                                   minimum maximum tags), Inr x)]),
                 lg @ [Invoked])))"
proof (intro conjI impI)
  let ?params = "auto_scaling_params name launch_template_id subnets desired minimum maximum tags"
  let ?body = "ensure_auto_scaling_group_body client name launch_template_id subnets desired
                 minimum maximum tags"
  show "\<exists>as. run_of ?body (asg_attempt name ?params) n d w
            (ensure_auto_scaling_group client name launch_template_id subnets desired minimum
               maximum tags n d w) as
          \<and> (1 \<le> n \<longrightarrow> as \<noteq> [])"
    unfolding ensure_auto_scaling_group_def
    by (rule retryable_attempts [OF ensure_auto_scaling_group_body_shape])
  {
    assume a: "1 \<le> n \<and> client (DescribeAutoScalingGroups [name]) p = (Inl e, p')
        \<and> is_ResourceInUseFault e \<and> client (CreateAutoScalingGroup ?params) p' = (Inr x, p'')"
    then have "?body (p, tr)
        = (Inr (), (p'', tr @ [(DescribeAutoScalingGroups [name], Inl e),
                               (CreateAutoScalingGroup ?params, Inr x)]))"
      by (simp add: ensure_auto_scaling_group_body_def run_defs)
    with a show "ensure_auto_scaling_group client name launch_template_id subnets desired minimum
               maximum tags n d ((p, tr), lg)
             = (Inr (Some ()),
                ((p'', tr @ [(DescribeAutoScalingGroups [name], Inl e),
                             (CreateAutoScalingGroup ?params, Inr x)]),
                 lg @ [Invoked]))"
      unfolding ensure_auto_scaling_group_def by (intro retryable_first_success) simp_all
  }
  {
    assume a: "1 \<le> n \<and> client (DescribeAutoScalingGroups [name]) p = (Inr y, p')
        \<and> client (UpdateAutoScalingGroup ?params) p' = (Inr x, p'')"
    then have "?body (p, tr)
        = (Inr (), (p'', tr @ [(DescribeAutoScalingGroups [name], Inr y),
                               (UpdateAutoScalingGroup ?params, Inr x)]))"
      by (simp add: ensure_auto_scaling_group_body_def run_defs)
    with a show "ensure_auto_scaling_group client name launch_template_id subnets desired minimum
               maximum tags n d ((p, tr), lg)
             = (Inr (Some ()),
                ((p'', tr @ [(DescribeAutoScalingGroups [name], Inr y),
                             (UpdateAutoScalingGroup ?params, Inr x)]),
                 lg @ [Invoked]))"
      unfolding ensure_auto_scaling_group_def by (intro retryable_first_success) simp_all
  }
qed

theorem ensure_auto_scaling_group_branch_witness:
  "ensure_auto_scaling_group scripted ''web'' ''lt-1'' [''subnet-1'', ''subnet-2''] 2 1 3
       [(''Project'', ''cda'')] 5 2
       (([Inl (ClientError ''ResourceInUseFault'' ''ResourceInUse''), Inr Done], []), [])
     = (Inr (Some ()),
        (([], [(DescribeAutoScalingGroups [''web''],
                Inl (ClientError ''ResourceInUseFault'' ''ResourceInUse'')),
               (CreateAutoScalingGroup
                  (auto_scaling_params ''web'' ''lt-1'' [''subnet-1'', ''subnet-2''] 2 1 3
                     [(''Project'', ''cda'')]), Inr Done)]),
         [Invoked]))
   \<and> ensure_auto_scaling_group scripted ''web'' ''lt-1'' [''subnet-1'', ''subnet-2''] 2 1 3
       [(''Project'', ''cda'')] 5 2
       (([Inr (Ids [''web'']), Inr Done], []), [])
     = (Inr (Some ()),
        (([], [(DescribeAutoScalingGroups [''web''], Inr (Ids [''web''])),
               (UpdateAutoScalingGroup
                  (auto_scaling_params ''web'' ''lt-1'' [''subnet-1'', ''subnet-2''] 2 1 3
                     [(''Project'', ''cda'')]), Inr Done)]),
         [Invoked]))"
  using ensure_auto_scaling_group_branch [where client = scripted and n = 5 and d = 2
          and tr = "[]" and lg = "[]" and name = "''web''" and launch_template_id = "''lt-1''"
          and subnets = "[''subnet-1'', ''subnet-2'']" and desired = 2 and minimum = 1
          and maximum = 3 and tags = "[(''Project'', ''cda'')]"
          and p = "[Inl (ClientError ''ResourceInUseFault'' ''ResourceInUse''), Inr Done]"
          and e = "ClientError ''ResourceInUseFault'' ''ResourceInUse''"
          and p' = "[Inr Done]" and p'' = "[]" and x = Done]
        ensure_auto_scaling_group_branch [where client = scripted and n = 5 and d = 2
          and tr = "[]" and lg = "[]" and name = "''web''" and launch_template_id = "''lt-1''"
          and subnets = "[''subnet-1'', ''subnet-2'']" and desired = 2 and minimum = 1
          and maximum = 3 and tags = "[(''Project'', ''cda'')]"
          and p = "[Inr (Ids [''web'']), Inr Done]" and y = "Ids [''web'']"
          and p' = "[Inr Done]" and p'' = "[]" and x = Done]
  by simp

text \<open>
  Claim C1 as stated fails in both directions. When the describe call reports the in-use
  fault for the group \<open>web\<close>, the create call is what follows, and no update call; when
  the describe call returns the group without any fault, the update call follows, and no
  create call.
\<close>

theorem ensure_auto_scaling_group_in_use_counterexample:
  "map fst (trace_of (snd
       (ensure_auto_scaling_group scripted ''web'' ''lt-1'' [''subnet-1'', ''subnet-2''] 2 1 3
          [(''Project'', ''cda'')] 5 2
          (([Inl (ClientError ''ResourceInUseFault'' ''ResourceInUse''), Inr Done], []), []))))
     = [DescribeAutoScalingGroups [''web''],
        CreateAutoScalingGroup
          (auto_scaling_params ''web'' ''lt-1'' [''subnet-1'', ''subnet-2''] 2 1 3
             [(''Project'', ''cda'')])]
   \<and> map fst (trace_of (snd
       (ensure_auto_scaling_group scripted ''web'' ''lt-1'' [''subnet-1'', ''subnet-2''] 2 1 3
          [(''Project'', ''cda'')] 5 2
          (([Inr (Ids [''web'']), Inr Done], []), []))))
     = [DescribeAutoScalingGroups [''web''],
        UpdateAutoScalingGroup
          (auto_scaling_params ''web'' ''lt-1'' [''subnet-1'', ''subnet-2''] 2 1 3
             [(''Project'', ''cda'')])]"
  by (simp add: ensure_auto_scaling_group_def retryable_def retry_loop_unfold
        ensure_auto_scaling_group_body_def run_defs trace_of_def Let_def)

section \<open>Buckets\<close>

lemma ensure_bucket_body_found:
  assumes "client (HeadBucket bucket) p = (Inr y, p')"
  shows "ensure_bucket_body client bucket region (p, tr)
           = (Inr (), (p', tr @ [(HeadBucket bucket, Inr y)]))"
  using assms by (simp add: ensure_bucket_body_def run_defs)

lemma ensure_bucket_body_created:
  assumes "client (HeadBucket bucket) p = (Inl e, p')" and "absent_bucket e"
    and "client (CreateBucket bucket (if region \<noteq> ''us-east-1'' then Some region else None)) p'
           = (Inr x, p'')"
  shows "ensure_bucket_body client bucket region (p, tr)
           = (Inr (), (p'', tr @ [(HeadBucket bucket, Inl e),
                                   (CreateBucket bucket
                                      (if region \<noteq> ''us-east-1'' then Some region else None),
                                    Inr x)]))"
  using assms by (cases e) (auto simp add: ensure_bucket_body_def run_defs)

lemma ensure_bucket_body_other:
  assumes "client (HeadBucket bucket) p = (Inl e, p')" and "\<not> absent_bucket e"
  shows "ensure_bucket_body client bucket region (p, tr)
           = (Inl e, (p', tr @ [(HeadBucket bucket, Inl e)]))"
  using assms by (cases e) (auto simp add: ensure_bucket_body_def run_defs)

text \<open>
  Claim C9, as the code has it. A call of \<open>ensure_bucket\<close> is a run of attempts; in each,
  a probe that raises a \<open>ClientError\<close> with code \<open>404\<close> or \<open>NoSuchBucket\<close> is followed
  by a create call that has no location constraint when the region is \<open>us-east-1\<close> and
  has the region as its constraint otherwise, and a probe that raises anything else ends
  the attempt with that exception and without a create call. Such an exception of the
  first attempt reaches the caller unchanged when it is not a \<open>ClientError\<close> or no attempt
  is left. When it is a \<open>ClientError\<close> and attempts are left, the wrapper sleeps (an
  exception of \<open>time.sleep\<close> reaches the caller) and probes again: if that probe finds
  the bucket the call returns normally, if it reports the bucket absent the bucket is
  created within the same call, and if it raises something else that is not a
  \<open>ClientError\<close>, or no attempt is left, that exception reaches the caller.
\<close>

theorem ensure_bucket_region:
  "(\<exists>as. run_of (ensure_bucket_body client bucket region) (bucket_attempt bucket region) n d w
            (ensure_bucket client bucket region n d w) as
          \<and> (1 \<le> n \<longrightarrow> as \<noteq> []))
   \<and> (1 \<le> n \<and> client (HeadBucket bucket) p = (Inl e, p') \<and> absent_bucket e
        \<and> client (CreateBucket bucket (if region \<noteq> ''us-east-1'' then Some region else None)) p'
            = (Inr x, p'')
        \<longrightarrow> ensure_bucket client bucket region n d ((p, tr), lg)
             = (Inr (Some ()),
                ((p'', tr @ [(HeadBucket bucket, Inl e),
                             (CreateBucket bucket
                                (if region \<noteq> ''us-east-1'' then Some region else None), Inr x)]),
                 lg @ [Invoked])))
   \<and> (1 \<le> n \<and> client (HeadBucket bucket) p = (Inl e, p') \<and> \<not> absent_bucket e
        \<and> (\<not> is_ClientError e \<or> n = 1)
        \<longrightarrow> ensure_bucket client bucket region n d ((p, tr), lg)
             = (Inl e, ((p', tr @ [(HeadBucket bucket, Inl e)]), lg @ [Invoked])))
   \<and> (1 < n \<and> client (HeadBucket bucket) p = (Inl e, p') \<and> \<not> absent_bucket e
        \<and> is_ClientError e \<and> time_sleep d = Some sx
        \<longrightarrow> ensure_bucket client bucket region n d ((p, tr), lg)
             = (Inl sx, ((p', tr @ [(HeadBucket bucket, Inl e)]),
                         lg @ [Invoked, Warned 1 n e])))
   \<and> (1 < n \<and> client (HeadBucket bucket) p = (Inl e, p') \<and> \<not> absent_bucket e
        \<and> is_ClientError e \<and> time_sleep d = None
        \<and> client (HeadBucket bucket) p' = (Inr y, p'')
        \<longrightarrow> ensure_bucket client bucket region n d ((p, tr), lg)
             = (Inr (Some ()),
                ((p'', tr @ [(HeadBucket bucket, Inl e), (HeadBucket bucket, Inr y)]),
                 lg @ [Invoked, Warned 1 n e, Slept d, Invoked])))
   \<and> (1 < n \<and> client (HeadBucket bucket) p = (Inl e, p') \<and> \<not> absent_bucket e
        \<and> is_ClientError e \<and> time_sleep d = None
        \<and> client (HeadBucket bucket) p' = (Inl e', p'') \<and> absent_bucket e'
        \<and> client (CreateBucket bucket (if region \<noteq> ''us-east-1'' then Some region else None)) p''
            = (Inr x, p''')
        \<longrightarrow> ensure_bucket client bucket region n d ((p, tr), lg)
             = (Inr (Some ()),
                ((p''', tr @ [(HeadBucket bucket, Inl e), (HeadBucket bucket, Inl e'),
                              (CreateBucket bucket
                                 (if region \<noteq> ''us-east-1'' then Some region else None), Inr x)]),
                 lg @ [Invoked, Warned 1 n e, Slept d, Invoked])))
   \<and> (1 < n \<and> client (HeadBucket bucket) p = (Inl e, p') \<and> \<not> absent_bucket e
        \<and> is_ClientError e \<and> time_sleep d = None
        \<and> client (HeadBucket bucket) p' = (Inl e', p'') \<and> \<not> absent_bucket e'
        \<and> (\<not> is_ClientError e' \<or> n = 2)
        \<longrightarrow> ensure_bucket client bucket region n d ((p, tr), lg)
             = (Inl e',
                ((p'', tr @ [(HeadBucket bucket, Inl e), (HeadBucket bucket, Inl e')]),
                 lg @ [Invoked, Warned 1 n e, Slept d, Invoked])))"
proof (intro conjI impI)
  let ?create = "CreateBucket bucket (if region \<noteq> ''us-east-1'' then Some region else None)"
  let ?body = "ensure_bucket_body client bucket region"
  show "\<exists>as. run_of ?body (bucket_attempt bucket region) n d w
            (ensure_bucket client bucket region n d w) as
          \<and> (1 \<le> n \<longrightarrow> as \<noteq> [])"
    unfolding ensure_bucket_def by (rule retryable_attempts [OF ensure_bucket_body_shape])
  {
    assume a: "1 \<le> n \<and> client (HeadBucket bucket) p = (Inl e, p') \<and> absent_bucket e
        \<and> client ?create p' = (Inr x, p'')"
    then have "?body (p, tr)
        = (Inr (), (p'', tr @ [(HeadBucket bucket, Inl e), (?create, Inr x)]))"
      by (intro ensure_bucket_body_created) (auto split: if_splits)
    with a show "ensure_bucket client bucket region n d ((p, tr), lg)
             = (Inr (Some ()),
                ((p'', tr @ [(HeadBucket bucket, Inl e), (?create, Inr x)]), lg @ [Invoked]))"
      unfolding ensure_bucket_def by (intro retryable_first_success) simp_all
  }
  {
    assume a: "1 \<le> n \<and> client (HeadBucket bucket) p = (Inl e, p') \<and> \<not> absent_bucket e
        \<and> (\<not> is_ClientError e \<or> n = 1)"
    then have "?body (p, tr) = (Inl e, (p', tr @ [(HeadBucket bucket, Inl e)]))"
      by (intro ensure_bucket_body_other) simp_all
    with a show "ensure_bucket client bucket region n d ((p, tr), lg)
             = (Inl e, ((p', tr @ [(HeadBucket bucket, Inl e)]), lg @ [Invoked]))"
      unfolding ensure_bucket_def by (intro retryable_first_failure) simp_all
  }
  {
    assume a: "1 < n \<and> client (HeadBucket bucket) p = (Inl e, p') \<and> \<not> absent_bucket e
        \<and> is_ClientError e \<and> time_sleep d = Some sx"
    then have "?body (p, tr) = (Inl e, (p', tr @ [(HeadBucket bucket, Inl e)]))"
      by (intro ensure_bucket_body_other) simp_all
    with a show "ensure_bucket client bucket region n d ((p, tr), lg)
             = (Inl sx, ((p', tr @ [(HeadBucket bucket, Inl e)]), lg @ [Invoked, Warned 1 n e]))"
      unfolding ensure_bucket_def by (intro retryable_sleep_raises) simp_all
  }
  {
    assume a: "1 < n \<and> client (HeadBucket bucket) p = (Inl e, p') \<and> \<not> absent_bucket e
        \<and> is_ClientError e \<and> time_sleep d = None
        \<and> client (HeadBucket bucket) p' = (Inr y, p'')"
    then have first: "?body (p, tr) = (Inl e, (p', tr @ [(HeadBucket bucket, Inl e)]))"
      by (intro ensure_bucket_body_other) simp_all
    from a have "?body (p', tr @ [(HeadBucket bucket, Inl e)])
        = (Inr (), (p'', (tr @ [(HeadBucket bucket, Inl e)]) @ [(HeadBucket bucket, Inr y)]))"
      by (intro ensure_bucket_body_found) simp
    with a first show "ensure_bucket client bucket region n d ((p, tr), lg)
             = (Inr (Some ()),
                ((p'', tr @ [(HeadBucket bucket, Inl e), (HeadBucket bucket, Inr y)]),
                 lg @ [Invoked, Warned 1 n e, Slept d, Invoked]))"
      unfolding ensure_bucket_def
      using retryable_second_success [where body = ?body and n = n and d = d and lg = lg
              and s = "(p, tr)" and e = e and s' = "(p', tr @ [(HeadBucket bucket, Inl e)])"]
      by simp
  }
  {
    assume a: "1 < n \<and> client (HeadBucket bucket) p = (Inl e, p') \<and> \<not> absent_bucket e
        \<and> is_ClientError e \<and> time_sleep d = None
        \<and> client (HeadBucket bucket) p' = (Inl e', p'') \<and> absent_bucket e'
        \<and> client ?create p'' = (Inr x, p''')"
    then have first: "?body (p, tr) = (Inl e, (p', tr @ [(HeadBucket bucket, Inl e)]))"
      by (intro ensure_bucket_body_other) simp_all
    from a have "?body (p', tr @ [(HeadBucket bucket, Inl e)])
        = (Inr (), (p''', (tr @ [(HeadBucket bucket, Inl e)])
                           @ [(HeadBucket bucket, Inl e'), (?create, Inr x)]))"
      by (intro ensure_bucket_body_created) (auto split: if_splits)
    with a first show "ensure_bucket client bucket region n d ((p, tr), lg)
             = (Inr (Some ()),
                ((p''', tr @ [(HeadBucket bucket, Inl e), (HeadBucket bucket, Inl e'),
                              (?create, Inr x)]),
                 lg @ [Invoked, Warned 1 n e, Slept d, Invoked]))"
      unfolding ensure_bucket_def
      using retryable_second_success [where body = ?body and n = n and d = d and lg = lg
              and s = "(p, tr)" and e = e and s' = "(p', tr @ [(HeadBucket bucket, Inl e)])"]
      by simp
  }
  {
    assume a: "1 < n \<and> client (HeadBucket bucket) p = (Inl e, p') \<and> \<not> absent_bucket e
        \<and> is_ClientError e \<and> time_sleep d = None
        \<and> client (HeadBucket bucket) p' = (Inl e', p'') \<and> \<not> absent_bucket e'
        \<and> (\<not> is_ClientError e' \<or> n = 2)"
    then have first: "?body (p, tr) = (Inl e, (p', tr @ [(HeadBucket bucket, Inl e)]))"
      by (intro ensure_bucket_body_other) simp_all
    from a have "?body (p', tr @ [(HeadBucket bucket, Inl e)])
        = (Inl e', (p'', (tr @ [(HeadBucket bucket, Inl e)]) @ [(HeadBucket bucket, Inl e')]))"
      by (intro ensure_bucket_body_other) simp_all
    with a first show "ensure_bucket client bucket region n d ((p, tr), lg)
             = (Inl e',
                ((p'', tr @ [(HeadBucket bucket, Inl e), (HeadBucket bucket, Inl e')]),
                 lg @ [Invoked, Warned 1 n e, Slept d, Invoked]))"
      unfolding ensure_bucket_def
      using retryable_second_failure [where body = ?body and n = n and d = d and lg = lg
              and s = "(p, tr)" and e = e and s' = "(p', tr @ [(HeadBucket bucket, Inl e)])"
              and e' = e']
      by auto
  }
qed

theorem ensure_bucket_region_witness:
  "ensure_bucket scripted ''cda-raw'' ''us-east-1'' 5 2
       (([Inl (ClientError ''ClientError'' ''404''), Inr Done], []), [])
     = (Inr (Some ()),
        (([], [(HeadBucket ''cda-raw'', Inl (ClientError ''ClientError'' ''404'')),
               (CreateBucket ''cda-raw'' None, Inr Done)]), [Invoked]))
   \<and> ensure_bucket scripted ''cda-raw'' ''eu-west-1'' 5 2
       (([Inl (ClientError ''ClientError'' ''NoSuchBucket''), Inr Done], []), [])
     = (Inr (Some ()),
        (([], [(HeadBucket ''cda-raw'', Inl (ClientError ''ClientError'' ''NoSuchBucket'')),
               (CreateBucket ''cda-raw'' (Some ''eu-west-1''), Inr Done)]), [Invoked]))
   \<and> ensure_bucket scripted ''cda-raw'' ''eu-west-1'' 1 2
       (([Inl (ClientError ''ClientError'' ''400'')], []), [])
     = (Inl (ClientError ''ClientError'' ''400''),
        (([], [(HeadBucket ''cda-raw'', Inl (ClientError ''ClientError'' ''400''))]), [Invoked]))
   \<and> ensure_bucket scripted ''cda-raw'' ''eu-west-1'' 5 (- 2)
       (([Inl (ClientError ''ClientError'' ''400'')], []), [])
     = (Inl (PyError ''ValueError''),
        (([], [(HeadBucket ''cda-raw'', Inl (ClientError ''ClientError'' ''400''))]),
         [Invoked, Warned 1 5 (ClientError ''ClientError'' ''400'')]))
   \<and> ensure_bucket scripted ''cda-raw'' ''eu-west-1'' 5 2
       (([Inl (ClientError ''ClientError'' ''400''), Inr Done], []), [])
     = (Inr (Some ()),
        (([], [(HeadBucket ''cda-raw'', Inl (ClientError ''ClientError'' ''400'')),
               (HeadBucket ''cda-raw'', Inr Done)]),
         [Invoked, Warned 1 5 (ClientError ''ClientError'' ''400''), Slept 2, Invoked]))
   \<and> ensure_bucket scripted ''cda-raw'' ''eu-west-1'' 5 2
       (([Inl (ClientError ''ClientError'' ''400''), Inl (ClientError ''ClientError'' ''404''),
          Inr Done], []), [])
     = (Inr (Some ()),
        (([], [(HeadBucket ''cda-raw'', Inl (ClientError ''ClientError'' ''400'')),
               (HeadBucket ''cda-raw'', Inl (ClientError ''ClientError'' ''404'')),
               (CreateBucket ''cda-raw'' (Some ''eu-west-1''), Inr Done)]),
         [Invoked, Warned 1 5 (ClientError ''ClientError'' ''400''), Slept 2, Invoked]))
   \<and> ensure_bucket scripted ''cda-raw'' ''eu-west-1'' 2 2
       (([Inl (ClientError ''ClientError'' ''400''), Inl (ClientError ''ClientError'' ''403'')],
         []), [])
     = (Inl (ClientError ''ClientError'' ''403''),
        (([], [(HeadBucket ''cda-raw'', Inl (ClientError ''ClientError'' ''400'')),
               (HeadBucket ''cda-raw'', Inl (ClientError ''ClientError'' ''403''))]),
         [Invoked, Warned 1 2 (ClientError ''ClientError'' ''400''), Slept 2, Invoked]))"
proof -
  have raises: "time_sleep (- 2) = Some (PyError ''ValueError'')" and sleeps: "time_sleep 2 = None"
    by (simp_all add: time_sleep_def sleep_limit_def)
  show ?thesis
    using ensure_bucket_region [where client = scripted and n = 5 and d = 2 and tr = "[]"
          and lg = "[]" and bucket = "''cda-raw''" and region = "''us-east-1''"
          and p = "[Inl (ClientError ''ClientError'' ''404''), Inr Done]"
          and e = "ClientError ''ClientError'' ''404''" and p' = "[Inr Done]" and p'' = "[]"
          and x = Done]
        ensure_bucket_region [where client = scripted and n = 5 and d = 2 and tr = "[]"
          and lg = "[]" and bucket = "''cda-raw''" and region = "''eu-west-1''"
          and p = "[Inl (ClientError ''ClientError'' ''NoSuchBucket''), Inr Done]"
          and e = "ClientError ''ClientError'' ''NoSuchBucket''" and p' = "[Inr Done]"
          and p'' = "[]" and x = Done]
        ensure_bucket_region [where client = scripted and n = 1 and d = 2 and tr = "[]"
          and lg = "[]" and bucket = "''cda-raw''" and region = "''eu-west-1''"
          and p = "[Inl (ClientError ''ClientError'' ''400'')]"
          and e = "ClientError ''ClientError'' ''400''" and p' = "[]"]
        ensure_bucket_region [where client = scripted and n = 5 and d = "- 2" and tr = "[]"
          and lg = "[]" and bucket = "''cda-raw''" and region = "''eu-west-1''"
          and p = "[Inl (ClientError ''ClientError'' ''400'')]"
          and e = "ClientError ''ClientError'' ''400''" and p' = "[]"
          and sx = "PyError ''ValueError''"]
        ensure_bucket_region [where client = scripted and n = 5 and d = 2 and tr = "[]"
          and lg = "[]" and bucket = "''cda-raw''" and region = "''eu-west-1''"
          and p = "[Inl (ClientError ''ClientError'' ''400''), Inr Done]"
          and e = "ClientError ''ClientError'' ''400''" and p' = "[Inr Done]" and p'' = "[]"
          and y = Done]
        ensure_bucket_region [where client = scripted and n = 5 and d = 2 and tr = "[]"
          and lg = "[]" and bucket = "''cda-raw''" and region = "''eu-west-1''"
          and p = "[Inl (ClientError ''ClientError'' ''400''),
                    Inl (ClientError ''ClientError'' ''404''), Inr Done]"
          and e = "ClientError ''ClientError'' ''400''"
          and p' = "[Inl (ClientError ''ClientError'' ''404''), Inr Done]"
          and e' = "ClientError ''ClientError'' ''404''" and p'' = "[Inr Done]"
          and p''' = "[]" and x = Done]
        ensure_bucket_region [where client = scripted and n = 2 and d = 2 and tr = "[]"
          and lg = "[]" and bucket = "''cda-raw''" and region = "''eu-west-1''"
          and p = "[Inl (ClientError ''ClientError'' ''400''),
                    Inl (ClientError ''ClientError'' ''403'')]"
          and e = "ClientError ''ClientError'' ''400''"
          and p' = "[Inl (ClientError ''ClientError'' ''403'')]"
          and e' = "ClientError ''ClientError'' ''403''" and p'' = "[]"]
        raises sleeps
    by simp
qed

text \<open>
  Claim C9 as stated fails. Under the default policy a probe that fails with code \<open>400\<close>,
  the code of a malformed request, does not reach the caller: the wrapper sleeps and
  probes again, and when that second probe reports \<open>404\<close> the bucket is created within
  the same call, which returns normally.
\<close>

theorem ensure_bucket_other_code_counterexample:
  "ensure_bucket scripted ''cda-raw'' ''eu-west-1'' default_max_attempts default_backoff_seconds
       (([Inl (ClientError ''ClientError'' ''400''), Inl (ClientError ''ClientError'' ''404''),
          Inr Done], []), [])
     = (Inr (Some ()),
        (([], [(HeadBucket ''cda-raw'', Inl (ClientError ''ClientError'' ''400'')),
               (HeadBucket ''cda-raw'', Inl (ClientError ''ClientError'' ''404'')),
               (CreateBucket ''cda-raw'' (Some ''eu-west-1''), Inr Done)]),
         [Invoked, Warned 1 5 (ClientError ''ClientError'' ''400''), Slept 2, Invoked]))"
  by (simp add: ensure_bucket_def retryable_def retry_loop_unfold ensure_bucket_body_def run_defs
        default_max_attempts_def default_backoff_seconds_def time_sleep_def sleep_limit_def)

section \<open>Routes\<close>

lemma ensure_route_body_created:
  assumes "client (create_route route_table_id destination_cidr gateway_id nat_gateway_id) p
             = (Inr y, p')"
  shows "ensure_route_body client route_table_id destination_cidr gateway_id nat_gateway_id (p, tr)
           = (Inr (), (p', tr @ [(create_route route_table_id destination_cidr gateway_id
                                    nat_gateway_id, Inr y)]))"
  using assms by (simp add: ensure_route_body_def run_defs)

lemma ensure_route_body_swallowed:
  assumes "client (create_route route_table_id destination_cidr gateway_id nat_gateway_id) p
             = (Inl e, p')"
    and "swallowed e"
  shows "ensure_route_body client route_table_id destination_cidr gateway_id nat_gateway_id (p, tr)
           = (Inr (), (p', tr @ [(create_route route_table_id destination_cidr gateway_id
                                    nat_gateway_id, Inl e)]))"
  using assms by (cases e) (auto simp add: ensure_route_body_def run_defs)

lemma ensure_route_body_other:
  assumes "client (create_route route_table_id destination_cidr gateway_id nat_gateway_id) p
             = (Inl e, p')"
    and "\<not> swallowed e"
  shows "ensure_route_body client route_table_id destination_cidr gateway_id nat_gateway_id (p, tr)
           = (Inl e, (p', tr @ [(create_route route_table_id destination_cidr gateway_id
                                   nat_gateway_id, Inl e)]))"
  using assms by (cases e) (auto simp add: ensure_route_body_def run_defs)

text \<open>
  Claim C6, as the code has it. A call of \<open>ensure_route\<close> is a run of attempts, each a
  single create-route call; an attempt succeeds when that call returns or raises a
  \<open>ClientError\<close> with code \<open>RouteAlreadyExists\<close>, and fails with the exception of the
  call otherwise. So on the first attempt a \<open>RouteAlreadyExists\<close> error makes the call
  return normally, and any other exception reaches the caller unchanged when it is not a
  \<open>ClientError\<close> or no attempt is left. After a \<open>ClientError\<close> with another code, when
  attempts are left, the wrapper sleeps (an exception of \<open>time.sleep\<close> reaches the
  caller) and issues the create-route call again: if it now returns, or raises
  \<open>RouteAlreadyExists\<close>, \<open>ensure_route\<close> returns normally and the first error never
  reaches the caller; if it raises something else that is not a \<open>ClientError\<close>, or no
  attempt is left, that exception reaches the caller.
\<close>

theorem ensure_route_conflict:
  "(\<exists>as. run_of (ensure_route_body client route_table_id destination_cidr gateway_id
                   nat_gateway_id)
            (route_attempt route_table_id destination_cidr gateway_id nat_gateway_id) n d w
            (ensure_route client route_table_id destination_cidr gateway_id nat_gateway_id n d w)
            as
          \<and> (1 \<le> n \<longrightarrow> as \<noteq> []))
   \<and> (1 \<le> n
        \<and> client (create_route route_table_id destination_cidr gateway_id nat_gateway_id) p
            = (Inl e, p')
        \<and> swallowed e
        \<longrightarrow> ensure_route client route_table_id destination_cidr gateway_id nat_gateway_id n d
               ((p, tr), lg)
             = (Inr (Some ()),
                ((p', tr @ [(create_route route_table_id destination_cidr gateway_id nat_gateway_id, Inl e)]),
                 lg @ [Invoked])))
   \<and> (1 \<le> n
        \<and> client (create_route route_table_id destination_cidr gateway_id nat_gateway_id) p
            = (Inl e, p')
        \<and> \<not> swallowed e \<and> (\<not> is_ClientError e \<or> n = 1)
        \<longrightarrow> ensure_route client route_table_id destination_cidr gateway_id nat_gateway_id n d
               ((p, tr), lg)
             = (Inl e,
                ((p', tr @ [(create_route route_table_id destination_cidr gateway_id nat_gateway_id, Inl e)]),
                 lg @ [Invoked])))
   \<and> (1 < n
        \<and> client (create_route route_table_id destination_cidr gateway_id nat_gateway_id) p
            = (Inl e, p')
        \<and> \<not> swallowed e \<and> is_ClientError e \<and> time_sleep d = Some sx
        \<longrightarrow> ensure_route client route_table_id destination_cidr gateway_id nat_gateway_id n d
               ((p, tr), lg)
             = (Inl sx,
                ((p', tr @ [(create_route route_table_id destination_cidr gateway_id nat_gateway_id, Inl e)]),
                 lg @ [Invoked, Warned 1 n e])))
   \<and> (1 < n
        \<and> client (create_route route_table_id destination_cidr gateway_id nat_gateway_id) p
            = (Inl e, p')
        \<and> \<not> swallowed e \<and> is_ClientError e \<and> time_sleep d = None
        \<and> client (create_route route_table_id destination_cidr gateway_id nat_gateway_id) p'
            = (Inr y, p'')
        \<longrightarrow> ensure_route client route_table_id destination_cidr gateway_id nat_gateway_id n d
               ((p, tr), lg)
             = (Inr (Some ()),
                ((p'', tr @ [(create_route route_table_id destination_cidr gateway_id nat_gateway_id, Inl e),
                             (create_route route_table_id destination_cidr gateway_id nat_gateway_id, Inr y)]),
                 lg @ [Invoked, Warned 1 n e, Slept d, Invoked])))
   \<and> (1 < n
        \<and> client (create_route route_table_id destination_cidr gateway_id nat_gateway_id) p
            = (Inl e, p')
        \<and> \<not> swallowed e \<and> is_ClientError e \<and> time_sleep d = None
        \<and> client (create_route route_table_id destination_cidr gateway_id nat_gateway_id) p'
            = (Inl e', p'')
        \<and> swallowed e'
        \<longrightarrow> ensure_route client route_table_id destination_cidr gateway_id nat_gateway_id n d
               ((p, tr), lg)
             = (Inr (Some ()),
                ((p'', tr @ [(create_route route_table_id destination_cidr gateway_id nat_gateway_id, Inl e),
                             (create_route route_table_id destination_cidr gateway_id nat_gateway_id, Inl e')]),
                 lg @ [Invoked, Warned 1 n e, Slept d, Invoked])))
   \<and> (1 < n
        \<and> client (create_route route_table_id destination_cidr gateway_id nat_gateway_id) p
            = (Inl e, p')
        \<and> \<not> swallowed e \<and> is_ClientError e \<and> time_sleep d = None
        \<and> client (create_route route_table_id destination_cidr gateway_id nat_gateway_id) p'
            = (Inl e', p'')
        \<and> \<not> swallowed e' \<and> (\<not> is_ClientError e' \<or> n = 2)
        \<longrightarrow> ensure_route client route_table_id destination_cidr gateway_id nat_gateway_id n d
               ((p, tr), lg)
             = (Inl e',
                ((p'', tr @ [(create_route route_table_id destination_cidr gateway_id nat_gateway_id, Inl e),
                             (create_route route_table_id destination_cidr gateway_id nat_gateway_id, Inl e')]),
                 lg @ [Invoked, Warned 1 n e, Slept d, Invoked])))"
proof (intro conjI impI)
  let ?c = "create_route route_table_id destination_cidr gateway_id nat_gateway_id"
  let ?body = "ensure_route_body client route_table_id destination_cidr gateway_id nat_gateway_id"
  show "\<exists>as. run_of ?body
            (route_attempt route_table_id destination_cidr gateway_id nat_gateway_id) n d w
            (ensure_route client route_table_id destination_cidr gateway_id nat_gateway_id n d w)
            as
          \<and> (1 \<le> n \<longrightarrow> as \<noteq> [])"
    unfolding ensure_route_def by (rule retryable_attempts [OF ensure_route_body_shape])
  {
    assume a: "1 \<le> n
        \<and> client ?c p = (Inl e, p')
        \<and> swallowed e"
    then have "?body (p, tr) = (Inr (), (p', tr @ [(?c, Inl e)]))"
      by (intro ensure_route_body_swallowed) simp_all
    with a show "ensure_route client route_table_id destination_cidr gateway_id nat_gateway_id n d
               ((p, tr), lg)
             = (Inr (Some ()),
                ((p', tr @ [(?c, Inl e)]),
                 lg @ [Invoked]))"
      unfolding ensure_route_def by (intro retryable_first_success) simp_all
  }
  {
    assume a: "1 \<le> n
        \<and> client ?c p = (Inl e, p')
        \<and> \<not> swallowed e \<and> (\<not> is_ClientError e \<or> n = 1)"
    then have "?body (p, tr) = (Inl e, (p', tr @ [(?c, Inl e)]))"
      by (intro ensure_route_body_other) simp_all
    with a show "ensure_route client route_table_id destination_cidr gateway_id nat_gateway_id n d
               ((p, tr), lg)
             = (Inl e,
                ((p', tr @ [(?c, Inl e)]),
                 lg @ [Invoked]))"
      unfolding ensure_route_def by (intro retryable_first_failure) simp_all
  }
  {
    assume a: "1 < n
        \<and> client ?c p = (Inl e, p')
        \<and> \<not> swallowed e \<and> is_ClientError e \<and> time_sleep d = Some sx"
    then have "?body (p, tr) = (Inl e, (p', tr @ [(?c, Inl e)]))"
      by (intro ensure_route_body_other) simp_all
    with a show "ensure_route client route_table_id destination_cidr gateway_id nat_gateway_id n d
               ((p, tr), lg)
             = (Inl sx,
                ((p', tr @ [(?c, Inl e)]),
                 lg @ [Invoked, Warned 1 n e]))"
      unfolding ensure_route_def by (intro retryable_sleep_raises) simp_all
  }
  {
    assume a: "1 < n
        \<and> client ?c p = (Inl e, p')
        \<and> \<not> swallowed e \<and> is_ClientError e \<and> time_sleep d = None
        \<and> client ?c p' = (Inr y, p'')"
    then have first: "?body (p, tr) = (Inl e, (p', tr @ [(?c, Inl e)]))"
      by (intro ensure_route_body_other) simp_all
    from a have "?body (p', tr @ [(?c, Inl e)]) = (Inr (), (p'', (tr @ [(?c, Inl e)]) @ [(?c, Inr y)]))"
      by (intro ensure_route_body_created) simp_all
    with a first show "ensure_route client route_table_id destination_cidr gateway_id nat_gateway_id n d
               ((p, tr), lg)
             = (Inr (Some ()),
                ((p'', tr @ [(?c, Inl e),
                             (?c, Inr y)]),
                 lg @ [Invoked, Warned 1 n e, Slept d, Invoked]))"
      unfolding ensure_route_def
      using retryable_second_success [where body = ?body and n = n and d = d and lg = lg
              and s = "(p, tr)" and e = e and s' = "(p', tr @ [(?c, Inl e)])"]
      by auto
  }
  {
    assume a: "1 < n
        \<and> client ?c p = (Inl e, p')
        \<and> \<not> swallowed e \<and> is_ClientError e \<and> time_sleep d = None
        \<and> client ?c p' = (Inl e', p'')
        \<and> swallowed e'"
    then have first: "?body (p, tr) = (Inl e, (p', tr @ [(?c, Inl e)]))"
      by (intro ensure_route_body_other) simp_all
    from a have "?body (p', tr @ [(?c, Inl e)]) = (Inr (), (p'', (tr @ [(?c, Inl e)]) @ [(?c, Inl e')]))"
      by (intro ensure_route_body_swallowed) simp_all
    with a first show "ensure_route client route_table_id destination_cidr gateway_id nat_gateway_id n d
               ((p, tr), lg)
             = (Inr (Some ()),
                ((p'', tr @ [(?c, Inl e),
                             (?c, Inl e')]),
                 lg @ [Invoked, Warned 1 n e, Slept d, Invoked]))"
      unfolding ensure_route_def
      using retryable_second_success [where body = ?body and n = n and d = d and lg = lg
              and s = "(p, tr)" and e = e and s' = "(p', tr @ [(?c, Inl e)])"]
      by auto
  }
  {
    assume a: "1 < n
        \<and> client ?c p = (Inl e, p')
        \<and> \<not> swallowed e \<and> is_ClientError e \<and> time_sleep d = None
        \<and> client ?c p' = (Inl e', p'')
        \<and> \<not> swallowed e' \<and> (\<not> is_ClientError e' \<or> n = 2)"
    then have first: "?body (p, tr) = (Inl e, (p', tr @ [(?c, Inl e)]))"
      by (intro ensure_route_body_other) simp_all
    from a have "?body (p', tr @ [(?c, Inl e)]) = (Inl e', (p'', (tr @ [(?c, Inl e)]) @ [(?c, Inl e')]))"
      by (intro ensure_route_body_other) simp_all
    with a first show "ensure_route client route_table_id destination_cidr gateway_id nat_gateway_id n d
               ((p, tr), lg)
             = (Inl e',
                ((p'', tr @ [(?c, Inl e),
                             (?c, Inl e')]),
                 lg @ [Invoked, Warned 1 n e, Slept d, Invoked]))"
      unfolding ensure_route_def
      using retryable_second_failure [where body = ?body and n = n and d = d and lg = lg
              and s = "(p, tr)" and e = e and s' = "(p', tr @ [(?c, Inl e)])" and e' = e']
      by auto
  }
qed

text \<open>
  The theorem at work: the same route ensured twice against the in-memory provider, and
  scripted providers for each of the other cases.
\<close>

theorem ensure_route_conflict_witness:
  "ensure_route in_memory ''rtb-1'' ''0.0.0.0/0'' (Some ''igw-1'') None 5 2
       ((fresh [], []), [])
     = (Inr (Some ()),
        (((fresh []) \<lparr> held_routes := [(''rtb-1'', ''0.0.0.0/0'')] \<rparr>,
          [(CreateRoute ''rtb-1'' ''0.0.0.0/0'' (Some ''igw-1'') None, Inr Done)]), [Invoked]))
   \<and> ensure_route in_memory ''rtb-1'' ''0.0.0.0/0'' (Some ''igw-1'') None 5 2
       (((fresh []) \<lparr> held_routes := [(''rtb-1'', ''0.0.0.0/0'')] \<rparr>,
         [(CreateRoute ''rtb-1'' ''0.0.0.0/0'' (Some ''igw-1'') None, Inr Done)]), [Invoked])
     = (Inr (Some ()),
        (((fresh []) \<lparr> held_routes := [(''rtb-1'', ''0.0.0.0/0'')] \<rparr>,
          [(CreateRoute ''rtb-1'' ''0.0.0.0/0'' (Some ''igw-1'') None, Inr Done),
           (CreateRoute ''rtb-1'' ''0.0.0.0/0'' (Some ''igw-1'') None,
            Inl (ClientError ''ClientError'' ''RouteAlreadyExists''))]), [Invoked, Invoked]))
   \<and> ensure_route scripted ''rtb-1'' ''0.0.0.0/0'' (Some ''igw-1'') None 1 2
       (([Inl (ClientError ''ClientError'' ''UnauthorizedOperation'')], []), [])
     = (Inl (ClientError ''ClientError'' ''UnauthorizedOperation''),
        (([], [(CreateRoute ''rtb-1'' ''0.0.0.0/0'' (Some ''igw-1'') None,
                Inl (ClientError ''ClientError'' ''UnauthorizedOperation''))]), [Invoked]))
   \<and> ensure_route scripted ''rtb-1'' ''0.0.0.0/0'' (Some ''igw-1'') None 5 (- 2)
       (([Inl (ClientError ''ClientError'' ''InvalidParameterValue'')], []), [])
     = (Inl (PyError ''ValueError''),
        (([], [(CreateRoute ''rtb-1'' ''0.0.0.0/0'' (Some ''igw-1'') None,
                Inl (ClientError ''ClientError'' ''InvalidParameterValue''))]),
         [Invoked, Warned 1 5 (ClientError ''ClientError'' ''InvalidParameterValue'')]))
   \<and> ensure_route scripted ''rtb-1'' ''0.0.0.0/0'' (Some ''igw-1'') None 5 2
       (([Inl (ClientError ''ClientError'' ''InvalidParameterValue''), Inr Done], []), [])
     = (Inr (Some ()),
        (([], [(CreateRoute ''rtb-1'' ''0.0.0.0/0'' (Some ''igw-1'') None,
                Inl (ClientError ''ClientError'' ''InvalidParameterValue'')),
               (CreateRoute ''rtb-1'' ''0.0.0.0/0'' (Some ''igw-1'') None, Inr Done)]),
         [Invoked, Warned 1 5 (ClientError ''ClientError'' ''InvalidParameterValue''), Slept 2, Invoked]))
   \<and> ensure_route scripted ''rtb-1'' ''0.0.0.0/0'' (Some ''igw-1'') None 5 2
       (([Inl (ClientError ''ClientError'' ''InvalidParameterValue''),
          Inl (ClientError ''ClientError'' ''RouteAlreadyExists'')], []), [])
     = (Inr (Some ()),
        (([], [(CreateRoute ''rtb-1'' ''0.0.0.0/0'' (Some ''igw-1'') None,
                Inl (ClientError ''ClientError'' ''InvalidParameterValue'')),
               (CreateRoute ''rtb-1'' ''0.0.0.0/0'' (Some ''igw-1'') None,
                Inl (ClientError ''ClientError'' ''RouteAlreadyExists''))]),
         [Invoked, Warned 1 5 (ClientError ''ClientError'' ''InvalidParameterValue''), Slept 2, Invoked]))
   \<and> ensure_route scripted ''rtb-1'' ''0.0.0.0/0'' (Some ''igw-1'') None 2 2
       (([Inl (ClientError ''ClientError'' ''InvalidParameterValue''),
          Inl (ClientError ''ClientError'' ''UnauthorizedOperation'')], []), [])
     = (Inl (ClientError ''ClientError'' ''UnauthorizedOperation''),
        (([], [(CreateRoute ''rtb-1'' ''0.0.0.0/0'' (Some ''igw-1'') None,
                Inl (ClientError ''ClientError'' ''InvalidParameterValue'')),
               (CreateRoute ''rtb-1'' ''0.0.0.0/0'' (Some ''igw-1'') None,
                Inl (ClientError ''ClientError'' ''UnauthorizedOperation''))]),
         [Invoked, Warned 1 2 (ClientError ''ClientError'' ''InvalidParameterValue''), Slept 2, Invoked]))"
proof -
  have first: "ensure_route in_memory ''rtb-1'' ''0.0.0.0/0'' (Some ''igw-1'') None 5 2
       ((fresh [], []), [])
     = (Inr (Some ()),
        (((fresh []) \<lparr> held_routes := [(''rtb-1'', ''0.0.0.0/0'')] \<rparr>,
          [(CreateRoute ''rtb-1'' ''0.0.0.0/0'' (Some ''igw-1'') None, Inr Done)]), [Invoked]))"
    by (simp add: ensure_route_def retryable_def retry_loop_unfold ensure_route_body_def run_defs
          create_route_def fresh_def)
  have raises: "time_sleep (- 2) = Some (PyError ''ValueError'')" and sleeps: "time_sleep 2 = None"
    by (simp_all add: time_sleep_def sleep_limit_def)
  show ?thesis
    using first
      ensure_route_conflict [where client = in_memory and n = 5 and d = 2
          and route_table_id = "''rtb-1''" and destination_cidr = "''0.0.0.0/0''"
          and gateway_id = "Some ''igw-1''" and nat_gateway_id = None
          and p = "(fresh []) \<lparr> held_routes := [(''rtb-1'', ''0.0.0.0/0'')] \<rparr>"
          and p' = "(fresh []) \<lparr> held_routes := [(''rtb-1'', ''0.0.0.0/0'')] \<rparr>"
          and e = "ClientError ''ClientError'' ''RouteAlreadyExists''"
          and tr = "[(CreateRoute ''rtb-1'' ''0.0.0.0/0'' (Some ''igw-1'') None, Inr Done)]"
          and lg = "[Invoked]"]
      ensure_route_conflict [where client = scripted and n = 1 and d = 2
          and route_table_id = "''rtb-1''" and destination_cidr = "''0.0.0.0/0''"
          and gateway_id = "Some ''igw-1''" and nat_gateway_id = None
          and p = "[Inl (ClientError ''ClientError'' ''UnauthorizedOperation'')]" and p' = "[]"
          and e = "ClientError ''ClientError'' ''UnauthorizedOperation''"
          and tr = "[]" and lg = "[]"]
      ensure_route_conflict [where client = scripted and n = 5 and d = "- 2"
          and route_table_id = "''rtb-1''" and destination_cidr = "''0.0.0.0/0''"
          and gateway_id = "Some ''igw-1''" and nat_gateway_id = None
          and p = "[Inl (ClientError ''ClientError'' ''InvalidParameterValue'')]" and p' = "[]"
          and e = "ClientError ''ClientError'' ''InvalidParameterValue''"
          and sx = "PyError ''ValueError''" and tr = "[]" and lg = "[]"]
      ensure_route_conflict [where client = scripted and n = 5 and d = 2
          and route_table_id = "''rtb-1''" and destination_cidr = "''0.0.0.0/0''"
          and gateway_id = "Some ''igw-1''" and nat_gateway_id = None
          and p = "[Inl (ClientError ''ClientError'' ''InvalidParameterValue''), Inr Done]"
          and p' = "[Inr Done]" and p'' = "[]" and y = Done
          and e = "ClientError ''ClientError'' ''InvalidParameterValue''"
          and tr = "[]" and lg = "[]"]
      ensure_route_conflict [where client = scripted and n = 5 and d = 2
          and route_table_id = "''rtb-1''" and destination_cidr = "''0.0.0.0/0''"
          and gateway_id = "Some ''igw-1''" and nat_gateway_id = None
          and p = "[Inl (ClientError ''ClientError'' ''InvalidParameterValue''),
                    Inl (ClientError ''ClientError'' ''RouteAlreadyExists'')]"
          and p' = "[Inl (ClientError ''ClientError'' ''RouteAlreadyExists'')]" and p'' = "[]"
          and e = "ClientError ''ClientError'' ''InvalidParameterValue''"
          and e' = "ClientError ''ClientError'' ''RouteAlreadyExists''"
          and tr = "[]" and lg = "[]"]
      ensure_route_conflict [where client = scripted and n = 2 and d = 2
          and route_table_id = "''rtb-1''" and destination_cidr = "''0.0.0.0/0''"
          and gateway_id = "Some ''igw-1''" and nat_gateway_id = None
          and p = "[Inl (ClientError ''ClientError'' ''InvalidParameterValue''),
                    Inl (ClientError ''ClientError'' ''UnauthorizedOperation'')]"
          and p' = "[Inl (ClientError ''ClientError'' ''UnauthorizedOperation'')]" and p'' = "[]"
          and e = "ClientError ''ClientError'' ''InvalidParameterValue''"
          and e' = "ClientError ''ClientError'' ''UnauthorizedOperation''"
          and tr = "[]" and lg = "[]"]
      raises sleeps
    by (simp add: create_route_def fresh_def)
qed

text \<open>
  Claim C6 as stated fails in its second part. Under the default policy a create-route
  call that fails once with code \<open>InvalidParameterValue\<close>, the code of a malformed
  request, does not reach the caller: the wrapper sleeps, the call is issued again and
  succeeds, and \<open>ensure_route\<close> returns normally.
\<close>

theorem ensure_route_other_code_counterexample:
  "ensure_route scripted ''rtb-1'' ''0.0.0.0/0'' (Some ''igw-1'') None default_max_attempts
       default_backoff_seconds
       (([Inl (ClientError ''ClientError'' ''InvalidParameterValue''), Inr Done], []), [])
     = (Inr (Some ()),
        (([], [(CreateRoute ''rtb-1'' ''0.0.0.0/0'' (Some ''igw-1'') None,
                Inl (ClientError ''ClientError'' ''InvalidParameterValue'')),
               (CreateRoute ''rtb-1'' ''0.0.0.0/0'' (Some ''igw-1'') None, Inr Done)]),
         [Invoked, Warned 1 5 (ClientError ''ClientError'' ''InvalidParameterValue''), Slept 2,
          Invoked]))"
  by (simp add: ensure_route_def retryable_def retry_loop_unfold ensure_route_body_def run_defs
        create_route_def default_max_attempts_def default_backoff_seconds_def time_sleep_def
        sleep_limit_def)
section \<open>Security group rules\<close>

lemma and_then_throw: "and_then (throw e) f = throw e"
  by (rule ext) (simp add: and_then_def throw_def)

lemma authorize_if_missing_describes_only:
  "grows_by snd (\<lambda>(c, a). c = DescribeSecurityGroupRules group_id ''false''
                           \<or> c = DescribeSecurityGroupRules group_id ''true'')
     (authorize_if_missing client group_id rules egress)"
  unfolding authorize_if_missing_def Let_def normalize_rules_def and_then_throw
  by (intro grows_by_and_then grows_by_invoke grows_by_if grows_by_ret grows_by_throw) simp_all

text \<open>
  Claim C7 on the code. For either direction: when the provider reports a rule of that
  direction, \<open>configure_rules\<close> issues no authorize call for it, whatever the requested
  rules are; but when it reports none and rules are requested, the call stops with
  \<open>NameError\<close> at \<open>_normalize_rules\<close>, after the describe call and before any authorize
  call, so the requested rules are not authorized (and after a failure for the ingress
  direction the egress rules are not looked at). Whatever the provider answers,
  \<open>configure_rules\<close> issues describe calls only.
\<close>

theorem configure_rules_never_authorizes:
  "(ingress_rules \<noteq> []
      \<and> client (DescribeSecurityGroupRules group_id ''false'') p = (Inr (Ids (x # xs)), p')
      \<longrightarrow> configure_rules client group_id ingress_rules [] (p, tr)
           = (Inr (), (p', tr @ [(DescribeSecurityGroupRules group_id ''false'',
                                   Inr (Ids (x # xs)))])))
   \<and> (ingress_rules \<noteq> []
      \<and> client (DescribeSecurityGroupRules group_id ''false'') p = (Inr (Ids []), p')
      \<longrightarrow> configure_rules client group_id ingress_rules egress_rules (p, tr)
           = (Inl (PyError ''NameError''),
              (p', tr @ [(DescribeSecurityGroupRules group_id ''false'', Inr (Ids []))])))
   \<and> (egress_rules \<noteq> []
      \<and> client (DescribeSecurityGroupRules group_id ''true'') p = (Inr (Ids (x # xs)), p')
      \<longrightarrow> configure_rules client group_id [] egress_rules (p, tr)
           = (Inr (), (p', tr @ [(DescribeSecurityGroupRules group_id ''true'',
                                   Inr (Ids (x # xs)))])))
   \<and> (egress_rules \<noteq> []
      \<and> client (DescribeSecurityGroupRules group_id ''true'') p = (Inr (Ids []), p')
      \<longrightarrow> configure_rules client group_id [] egress_rules (p, tr)
           = (Inl (PyError ''NameError''),
              (p', tr @ [(DescribeSecurityGroupRules group_id ''true'', Inr (Ids []))])))
   \<and> (\<exists>new. snd (snd (configure_rules client group_id ingress_rules egress_rules (p, tr)))
               = tr @ new
            \<and> list_all (\<lambda>(c, a). c = DescribeSecurityGroupRules group_id ''false''
                                 \<or> c = DescribeSecurityGroupRules group_id ''true'') new)"
proof (intro conjI)
  have "grows_by snd (\<lambda>(c, a). c = DescribeSecurityGroupRules group_id ''false''
                               \<or> c = DescribeSecurityGroupRules group_id ''true'')
          (configure_rules client group_id ingress_rules egress_rules)"
    unfolding configure_rules_def
    by (intro grows_by_and_then grows_by_if grows_by_ret authorize_if_missing_describes_only)
  then show "\<exists>new. snd (snd (configure_rules client group_id ingress_rules egress_rules (p, tr)))
               = tr @ new
            \<and> list_all (\<lambda>(c, a). c = DescribeSecurityGroupRules group_id ''false''
                                 \<or> c = DescribeSecurityGroupRules group_id ''true'') new"
    by (auto elim: grows_byD [where s = "(p, tr)"])
qed (simp_all add: configure_rules_def authorize_if_missing_def normalize_rules_def run_defs)

theorem configure_rules_never_authorizes_witness:
  "configure_rules scripted ''sg-1''
       [[(''IpProtocol'', ''tcp''), (''FromPort'', ''443'')]] []
       ([Inr (Ids [''sgr-1''])], [])
     = (Inr (), ([], [(DescribeSecurityGroupRules ''sg-1'' ''false'', Inr (Ids [''sgr-1'']))]))
   \<and> configure_rules scripted ''sg-1''
       [[(''IpProtocol'', ''tcp''), (''FromPort'', ''443'')]]
       [[(''IpProtocol'', ''-1'')]]
       ([Inr (Ids [])], [])
     = (Inl (PyError ''NameError''),
        ([], [(DescribeSecurityGroupRules ''sg-1'' ''false'', Inr (Ids []))]))
   \<and> configure_rules scripted ''sg-1'' [] [[(''IpProtocol'', ''-1'')]]
       ([Inr (Ids [''sgr-2''])], [])
     = (Inr (), ([], [(DescribeSecurityGroupRules ''sg-1'' ''true'', Inr (Ids [''sgr-2'']))]))
   \<and> configure_rules scripted ''sg-1'' [] [[(''IpProtocol'', ''-1'')]]
       ([Inr (Ids [])], [])
     = (Inl (PyError ''NameError''),
        ([], [(DescribeSecurityGroupRules ''sg-1'' ''true'', Inr (Ids []))]))"
  using configure_rules_never_authorizes [where client = scripted and group_id = "''sg-1''"
          and ingress_rules = "[[(''IpProtocol'', ''tcp''), (''FromPort'', ''443'')]]"
          and p = "[Inr (Ids [''sgr-1''])]" and x = "''sgr-1''" and xs = "[]" and p' = "[]"
          and tr = "[]"]
        configure_rules_never_authorizes [where client = scripted and group_id = "''sg-1''"
          and ingress_rules = "[[(''IpProtocol'', ''tcp''), (''FromPort'', ''443'')]]"
          and egress_rules = "[[(''IpProtocol'', ''-1'')]]"
          and p = "[Inr (Ids [])]" and p' = "[]" and tr = "[]"]
        configure_rules_never_authorizes [where client = scripted and group_id = "''sg-1''"
          and egress_rules = "[[(''IpProtocol'', ''-1'')]]"
          and p = "[Inr (Ids [''sgr-2''])]" and x = "''sgr-2''" and xs = "[]" and p' = "[]"
          and tr = "[]"]
        configure_rules_never_authorizes [where client = scripted and group_id = "''sg-1''"
          and egress_rules = "[[(''IpProtocol'', ''-1'')]]"
          and p = "[Inr (Ids [])]" and p' = "[]" and tr = "[]"]
  by simp

section \<open>NAT gateways\<close>

lemma failure_not_Inr [simp]: "failure a \<noteq> Inr v" "Inr v \<noteq> failure a"
  by (cases a; simp)+

lemma nat_gateway_attempt_no_lookup:
  assumes "nat_gateway_attempt subnet_id tags r new"
  shows "list_all (\<lambda>(c, a). \<not> is_lookup c) new"
  using assms by (rule nat_gateway_attempt.elims) auto

lemma nat_gateway_attempt_starts:
  assumes "nat_gateway_attempt subnet_id tags r new"
  shows "\<exists>a rest. new = (AllocateAddress ''vpc'' tags, a) # rest"
  using assms by (rule nat_gateway_attempt.elims) auto

lemma nat_gateway_attempt_success:
  assumes "nat_gateway_attempt subnet_id tags (Inr nat_gateway_id) new"
  shows "\<exists>allocation_id x.
           new = [(AllocateAddress ''vpc'' tags, Inr (Id allocation_id)),
                  (CreateNatGateway subnet_id allocation_id tags, Inr (Id nat_gateway_id)),
                  (WaitNatGatewayAvailable [nat_gateway_id], Inr x)]"
  using assms
proof (rule nat_gateway_attempt.elims)
  fix s t r' al allocation_id c g wt a
  assume eqs: "subnet_id = s" "tags = t" "Inr nat_gateway_id = r'"
      "new = [(al, Inr (Id allocation_id)), (c, Inr (Id g)), (wt, a)]"
    and shape: "al = AllocateAddress ''vpc'' t \<and> c = CreateNatGateway s allocation_id t
      \<and> wt = WaitNatGatewayAvailable [g] \<and> r' = map_sum id (\<lambda>_. g) a"
  from eqs(3) shape obtain x where "a = Inr x" "g = nat_gateway_id"
    by (cases a) auto
  with eqs shape show ?thesis by auto
qed simp_all

lemma run_of_success_last:
  assumes run: "run_from body Q n d k w out as" and ok: "fst out = Inr (Some v)"
  shows "\<exists>earlier new. trace_of (snd out) = trace_of w @ earlier @ new \<and> Q (Inr v) new"
proof -
  from run ok have out: "outcome (map fst as) = Inr (Some v)"
    by (auto simp add: run_from_def split: if_splits option.splits)
  then have ne: "as \<noteq> []" by (auto simp add: outcome_def)
  then obtain front r new where as: "as = front @ [(r, new)]"
    by (cases as rule: rev_cases) auto
  with out have r: "r = Inr v" by (cases r) (auto simp add: outcome_def)
  from run as have "Q r new" by (simp add: run_from_def)
  moreover from run as
  have "trace_of (snd out) = trace_of w @ concat (map snd front) @ new"
    by (simp add: run_from_def)
  ultimately show ?thesis using r by blast
qed

lemma run_of_first:
  assumes run: "run_from body Q n d k w out as" and ne: "as \<noteq> []"
  shows "\<exists>r new rest. trace_of (snd out) = trace_of w @ new @ rest \<and> Q r new"
proof -
  from ne obtain r new as' where as: "as = (r, new) # as'" by (cases as) auto
  with run have "Q r new" and "trace_of (snd out) = trace_of w @ new @ concat (map snd as')"
    by (simp_all add: run_from_def)
  then show ?thesis by blast
qed

text \<open>
  Claim C8. Whatever the provider answers, \<open>ensure_nat_gateway\<close> issues no lookup call
  at all, and with \<open>max_attempts \<ge> 1\<close> the first call it issues is the address
  allocation. When its first attempt goes through, it has allocated an address, created
  a gateway with that allocation in the given subnet and waited for that gateway, and
  nothing else. And whenever it returns a gateway identifier, the last three calls it
  issued are a successful allocation, the successful creation of the returned gateway with
  that allocation, and the wait for that gateway, which returned.
\<close>

theorem ensure_nat_gateway_unconditional:
  "(\<exists>new. trace_of (snd (ensure_nat_gateway client subnet_id name tags n d w)) = trace_of w @ new
          \<and> list_all (\<lambda>(c, a). \<not> is_lookup c) new)
   \<and> (1 \<le> n \<longrightarrow>
        (\<exists>a rest. trace_of (snd (ensure_nat_gateway client subnet_id name tags n d w))
                    = trace_of w @ (AllocateAddress ''vpc'' (mk_tags name tags), a) # rest))
   \<and> (1 \<le> n
        \<and> client (AllocateAddress ''vpc'' (mk_tags name tags)) p = (Inr (Id allocation_id), p')
        \<and> client (CreateNatGateway subnet_id allocation_id (mk_tags name tags)) p'
            = (Inr (Id nat_gateway_id), p'')
        \<and> client (WaitNatGatewayAvailable [nat_gateway_id]) p'' = (Inr x, p''')
        \<longrightarrow> ensure_nat_gateway client subnet_id name tags n d ((p, tr), lg)
             = (Inr (Some nat_gateway_id),
                ((p''', tr @ [(AllocateAddress ''vpc'' (mk_tags name tags), Inr (Id allocation_id)),
                              (CreateNatGateway subnet_id allocation_id (mk_tags name tags),
                               Inr (Id nat_gateway_id)),
                              (WaitNatGatewayAvailable [nat_gateway_id], Inr x)]),
                 lg @ [Invoked])))
   \<and> (fst (ensure_nat_gateway client subnet_id name tags n d w) = Inr (Some returned_id)
        \<longrightarrow> (\<exists>earlier allocation y.
               trace_of (snd (ensure_nat_gateway client subnet_id name tags n d w))
                 = trace_of w @ earlier
                   @ [(AllocateAddress ''vpc'' (mk_tags name tags), Inr (Id allocation)),
                      (CreateNatGateway subnet_id allocation (mk_tags name tags),
                       Inr (Id returned_id)),
                      (WaitNatGatewayAvailable [returned_id], Inr y)]))"
proof -
  let ?out = "ensure_nat_gateway client subnet_id name tags n d w"
  let ?Q = "nat_gateway_attempt subnet_id (mk_tags name tags)"
  from retryable_attempts [OF ensure_nat_gateway_body_shape, where w = w and n = n and d = d]
  obtain as where run: "run_of (ensure_nat_gateway_body client subnet_id name tags) ?Q n d w ?out as"
    and ne: "1 \<le> n \<longrightarrow> as \<noteq> []"
    unfolding ensure_nat_gateway_def by blast
  have no_lookup: "\<exists>new. trace_of (snd ?out) = trace_of w @ new
          \<and> list_all (\<lambda>(c, a). \<not> is_lookup c) new"
    using run by (rule run_of_grows) (rule nat_gateway_attempt_no_lookup)
  have first: "1 \<le> n \<longrightarrow>
        (\<exists>a rest. trace_of (snd ?out)
                    = trace_of w @ (AllocateAddress ''vpc'' (mk_tags name tags), a) # rest)"
  proof
    assume "1 \<le> n"
    with ne have "as \<noteq> []" by simp
    from run_of_first [OF run this]
    obtain r new rest where "trace_of (snd ?out) = trace_of w @ new @ rest" "?Q r new" by blast
    with nat_gateway_attempt_starts [of subnet_id "mk_tags name tags" r new]
    show "\<exists>a rest. trace_of (snd ?out)
                    = trace_of w @ (AllocateAddress ''vpc'' (mk_tags name tags), a) # rest"
      by auto
  qed
  have through: "1 \<le> n
        \<and> client (AllocateAddress ''vpc'' (mk_tags name tags)) p = (Inr (Id allocation_id), p')
        \<and> client (CreateNatGateway subnet_id allocation_id (mk_tags name tags)) p'
            = (Inr (Id nat_gateway_id), p'')
        \<and> client (WaitNatGatewayAvailable [nat_gateway_id]) p'' = (Inr x, p''')
        \<longrightarrow> ensure_nat_gateway client subnet_id name tags n d ((p, tr), lg)
             = (Inr (Some nat_gateway_id),
                ((p''', tr @ [(AllocateAddress ''vpc'' (mk_tags name tags), Inr (Id allocation_id)),
                              (CreateNatGateway subnet_id allocation_id (mk_tags name tags),
                               Inr (Id nat_gateway_id)),
                              (WaitNatGatewayAvailable [nat_gateway_id], Inr x)]),
                 lg @ [Invoked]))"
  proof
    assume a: "1 \<le> n
        \<and> client (AllocateAddress ''vpc'' (mk_tags name tags)) p = (Inr (Id allocation_id), p')
        \<and> client (CreateNatGateway subnet_id allocation_id (mk_tags name tags)) p'
            = (Inr (Id nat_gateway_id), p'')
        \<and> client (WaitNatGatewayAvailable [nat_gateway_id]) p'' = (Inr x, p''')"
    then have "ensure_nat_gateway_body client subnet_id name tags (p, tr)
        = (Inr nat_gateway_id,
           (p''', tr @ [(AllocateAddress ''vpc'' (mk_tags name tags), Inr (Id allocation_id)),
                        (CreateNatGateway subnet_id allocation_id (mk_tags name tags),
                         Inr (Id nat_gateway_id)),
                        (WaitNatGatewayAvailable [nat_gateway_id], Inr x)]))"
      by (simp add: ensure_nat_gateway_body_def run_defs)
    with a show "ensure_nat_gateway client subnet_id name tags n d ((p, tr), lg)
             = (Inr (Some nat_gateway_id),
                ((p''', tr @ [(AllocateAddress ''vpc'' (mk_tags name tags), Inr (Id allocation_id)),
                              (CreateNatGateway subnet_id allocation_id (mk_tags name tags),
                               Inr (Id nat_gateway_id)),
                              (WaitNatGatewayAvailable [nat_gateway_id], Inr x)]),
                 lg @ [Invoked]))"
      unfolding ensure_nat_gateway_def by (intro retryable_first_success) simp_all
  qed
  have waited: "fst ?out = Inr (Some returned_id)
        \<longrightarrow> (\<exists>earlier allocation y.
               trace_of (snd ?out)
                 = trace_of w @ earlier
                   @ [(AllocateAddress ''vpc'' (mk_tags name tags), Inr (Id allocation)),
                      (CreateNatGateway subnet_id allocation (mk_tags name tags),
                       Inr (Id returned_id)),
                      (WaitNatGatewayAvailable [returned_id], Inr y)])"
  proof
    assume "fst ?out = Inr (Some returned_id)"
    from run_of_success_last [OF run this]
    obtain earlier new where tr: "trace_of (snd ?out) = trace_of w @ earlier @ new"
      and q: "?Q (Inr returned_id) new" by blast
    from nat_gateway_attempt_success [OF q] tr
    show "\<exists>earlier allocation y.
               trace_of (snd ?out)
                 = trace_of w @ earlier
                   @ [(AllocateAddress ''vpc'' (mk_tags name tags), Inr (Id allocation)),
                      (CreateNatGateway subnet_id allocation (mk_tags name tags),
                       Inr (Id returned_id)),
                      (WaitNatGatewayAvailable [returned_id], Inr y)]"
      by blast
  qed
  from no_lookup first through waited show ?thesis by (intro conjI)
qed

text \<open>
  An instance: \<open>ensure_nat_gateway\<close> called twice for the same subnet allocates two
  addresses and creates two gateways.
\<close>

theorem ensure_nat_gateway_unconditional_witness:
  "ensure_nat_gateway scripted ''subnet-1'' ''nat'' [] 5 2
       (([Inr (Id ''eipalloc-1''), Inr (Id ''nat-1''), Inr Done,
          Inr (Id ''eipalloc-2''), Inr (Id ''nat-2''), Inr Done], []), [])
     = (Inr (Some ''nat-1''),
        (([Inr (Id ''eipalloc-2''), Inr (Id ''nat-2''), Inr Done],
          [(AllocateAddress ''vpc'' [(''Name'', ''nat'')], Inr (Id ''eipalloc-1'')),
           (CreateNatGateway ''subnet-1'' ''eipalloc-1'' [(''Name'', ''nat'')], Inr (Id ''nat-1'')),
           (WaitNatGatewayAvailable [''nat-1''], Inr Done)]), [Invoked]))
   \<and> ensure_nat_gateway scripted ''subnet-1'' ''nat'' [] 5 2
       (([Inr (Id ''eipalloc-2''), Inr (Id ''nat-2''), Inr Done],
         [(AllocateAddress ''vpc'' [(''Name'', ''nat'')], Inr (Id ''eipalloc-1'')),
          (CreateNatGateway ''subnet-1'' ''eipalloc-1'' [(''Name'', ''nat'')], Inr (Id ''nat-1'')),
          (WaitNatGatewayAvailable [''nat-1''], Inr Done)]), [Invoked])
     = (Inr (Some ''nat-2''),
        (([],
          [(AllocateAddress ''vpc'' [(''Name'', ''nat'')], Inr (Id ''eipalloc-1'')),
           (CreateNatGateway ''subnet-1'' ''eipalloc-1'' [(''Name'', ''nat'')], Inr (Id ''nat-1'')),
           (WaitNatGatewayAvailable [''nat-1''], Inr Done),
           (AllocateAddress ''vpc'' [(''Name'', ''nat'')], Inr (Id ''eipalloc-2'')),
           (CreateNatGateway ''subnet-1'' ''eipalloc-2'' [(''Name'', ''nat'')], Inr (Id ''nat-2'')),
           (WaitNatGatewayAvailable [''nat-2''], Inr Done)]), [Invoked, Invoked]))"
  using ensure_nat_gateway_unconditional [where client = scripted and n = 5 and d = 2
          and subnet_id = "''subnet-1''" and name = "''nat''" and tags = "[]"
          and p = "[Inr (Id ''eipalloc-1''), Inr (Id ''nat-1''), Inr Done,
                    Inr (Id ''eipalloc-2''), Inr (Id ''nat-2''), Inr Done]"
          and allocation_id = "''eipalloc-1''" and nat_gateway_id = "''nat-1''" and x = Done
          and p' = "[Inr (Id ''nat-1''), Inr Done,
                     Inr (Id ''eipalloc-2''), Inr (Id ''nat-2''), Inr Done]"
          and p'' = "[Inr Done, Inr (Id ''eipalloc-2''), Inr (Id ''nat-2''), Inr Done]"
          and p''' = "[Inr (Id ''eipalloc-2''), Inr (Id ''nat-2''), Inr Done]"
          and tr = "[]" and lg = "[]"]
        ensure_nat_gateway_unconditional [where client = scripted and n = 5 and d = 2
          and subnet_id = "''subnet-1''" and name = "''nat''" and tags = "[]"
          and p = "[Inr (Id ''eipalloc-2''), Inr (Id ''nat-2''), Inr Done]"
          and allocation_id = "''eipalloc-2''" and nat_gateway_id = "''nat-2''" and x = Done
          and p' = "[Inr (Id ''nat-2''), Inr Done]"
          and p'' = "[Inr Done]" and p''' = "[]"
          and tr = "[(AllocateAddress ''vpc'' [(''Name'', ''nat'')], Inr (Id ''eipalloc-1'')),
            (CreateNatGateway ''subnet-1'' ''eipalloc-1'' [(''Name'', ''nat'')], Inr (Id ''nat-1'')),
            (WaitNatGatewayAvailable [''nat-1''], Inr Done)]" and lg = "[Invoked]"]
  by (simp add: mk_tags_def)

section \<open>What the steps of the driver add to the trace\<close>

lemma and_then_InrE:
  assumes "and_then m f s = (Inr x, s')"
  obtains v t where "m s = (Inr v, t)" and "f v t = (Inr x, s')"
  using assms by (auto simp add: and_then_def split: prod.splits sum.splits)

lemma ret_Inr [simp]: "ret v s = (Inr x, s') \<longleftrightarrow> x = v \<and> s' = s"
  by (auto simp add: ret_def)

lemma returned_Inr [simp]: "returned r s = (Inr v, s') \<longleftrightarrow> r = Some v \<and> s' = s"
  by (cases r) (auto simp add: returned_def ret_def throw_def)

lemma ids_of_Inr [simp]: "ids_of r s = (Inr xs, s') \<longleftrightarrow> r = Ids xs \<and> s' = s"
  by (cases r) (auto simp add: ids_of_def ret_def throw_def)

lemma extends_by_refl: "extends_by P w w"
  by (simp add: extends_by_def)

lemma extends_by_trans:
  assumes "extends_by P w w'" and "extends_by P w' w''"
  shows "extends_by P w w''"
proof -
  from assms obtain new new' where "trace_of w' = trace_of w @ new" "list_all (\<lambda>(c, a). P c) new"
    "trace_of w'' = trace_of w' @ new'" "list_all (\<lambda>(c, a). P c) new'"
    unfolding extends_by_def by blast
  then show ?thesis
    unfolding extends_by_def by (intro exI [of _ "new @ new'"]) simp
qed

lemma grows_by_step:
  assumes "grows_by trace_of (\<lambda>(c, a). P c) m" and "m w = (r, w')"
  shows "extends_by P w w'"
  using assms unfolding grows_by_def extends_by_def by (metis snd_conv)

lemma grows_by_case_list:
  assumes "grows_by tr P m" and "\<And>x xs. grows_by tr P (f x xs)"
  shows "grows_by tr P (case l of [] \<Rightarrow> m | x # xs \<Rightarrow> f x xs)"
  using assms by (cases l) simp_all

lemma ensure_vpc_grows:
  "grows_by trace_of (\<lambda>(c, a). vpc_call c) (ensure_vpc client name cidr tags n d)"
  unfolding ensure_vpc_def ensure_vpc_body_def Let_def
  by (intro grows_by_retryable grows_by_and_then grows_by_case_list grows_by_invoke
        grows_by_ids_of grows_by_id_of grows_by_ret) simp_all

lemma ensure_internet_gateway_grows:
  "grows_by trace_of (\<lambda>(c, a). downstream_call vpc_id c)
     (ensure_internet_gateway client vpc_id name tags n d)"
  unfolding ensure_internet_gateway_def ensure_internet_gateway_body_def Let_def
  by (intro grows_by_retryable grows_by_and_then grows_by_case_list grows_by_invoke
        grows_by_ids_of grows_by_id_of grows_by_ret) simp_all

lemma ensure_subnet_grows:
  "grows_by trace_of (\<lambda>(c, a). downstream_call vpc_id c)
     (ensure_subnet client name vpc_id cidr az public tags n d)"
  unfolding ensure_subnet_def ensure_subnet_body_def Let_def
  by (intro grows_by_retryable grows_by_and_then grows_by_case_list grows_by_invoke
        grows_by_ids_of grows_by_id_of grows_by_ret grows_by_if) simp_all

lemma ensure_bucket_body_grows:
  "grows_by snd (\<lambda>(c, a). downstream_call vpc_id c) (ensure_bucket_body client bucket region)"
  unfolding grows_by_def ensure_bucket_body_def run_defs
  by (auto split: prod.splits sum.splits exc.splits)

lemma ensure_bucket_grows:
  "grows_by trace_of (\<lambda>(c, a). downstream_call vpc_id c) (ensure_bucket client bucket region n d)"
  unfolding ensure_bucket_def by (intro grows_by_retryable ensure_bucket_body_grows)

lemma enable_versioning_grows:
  "grows_by trace_of (\<lambda>(c, a). downstream_call vpc_id c)
     (unwrapped (enable_versioning client bucket))"
  unfolding enable_versioning_def
  by (intro grows_by_unwrapped grows_by_and_then grows_by_invoke grows_by_ret) simp_all

lemma describe_availability_zones_grows:
  "grows_by trace_of (\<lambda>(c, a). downstream_call vpc_id c)
     (unwrapped (invoke client (DescribeAvailabilityZones region)))"
  by (intro grows_by_unwrapped grows_by_invoke) simp_all

lemma subnets_loop_grows:
  "grows_by trace_of (\<lambda>(c, a). downstream_call vpc_id c)
     (subnets_loop client tier public vpc_id tags pairs subnets)"
proof (induction pairs arbitrary: subnets)
  case Nil
  show ?case by (simp add: grows_by_ret)
next
  case (Cons pair pairs)
  obtain cidr az where "pair = (cidr, az)" by (cases pair)
  with Cons.IH show ?case
    by (simp del: ret_Inr returned_Inr)
       (intro grows_by_and_then ensure_subnet_grows grows_by_returned)
qed

lemma subnets_loop_length:
  assumes "subnets_loop client tier public vpc_id tags pairs subnets w = (Inr result, w')"
  shows "length result = length subnets + length pairs"
  using assms
proof (induction pairs arbitrary: subnets w)
  case Nil
  then show ?case by simp
next
  case (Cons pair pairs)
  obtain cidr az where pair: "pair = (cidr, az)" by (cases pair)
  from Cons.prems obtain r t subnet_id t' where
    "returned r t = (Inr subnet_id, t')"
    "subnets_loop client tier public vpc_id tags pairs (subnets @ [subnet_id]) t'
       = (Inr result, w')"
    unfolding pair subnets_loop.simps by (elim and_then_InrE)
  with Cons.IH [of "subnets @ [subnet_id]" t'] show ?case by simp
qed

lemma subnets_loop_ensured:
  assumes "subnets_loop client tier public vpc_id tags pairs subnets w = (Inr result, w')"
  shows "\<exists>ids. result = subnets @ ids
           \<and> ensured_subnets client tier public vpc_id tags pairs ids w w'"
  using assms
proof (induction pairs arbitrary: subnets w)
  case Nil
  then show ?case by simp
next
  case (Cons pair pairs)
  obtain cidr az where pair: "pair = (cidr, az)" by (cases pair)
  from Cons.prems obtain r t subnet_id t' where
    first: "ensure_subnet client (tier @ ''-'' @ az) vpc_id cidr az public
              (dict_set tags ''Tier'' tier) default_max_attempts default_backoff_seconds w
            = (Inr r, t)"
    and r: "returned r t = (Inr subnet_id, t')"
    and rest: "subnets_loop client tier public vpc_id tags pairs (subnets @ [subnet_id]) t'
       = (Inr result, w')"
    unfolding pair subnets_loop.simps by (elim and_then_InrE)
  from r have r': "r = Some subnet_id" and t': "t' = t" by simp_all
  from Cons.IH [OF rest] obtain ids where
    ids: "result = (subnets @ [subnet_id]) @ ids"
      "ensured_subnets client tier public vpc_id tags pairs ids t' w'"
    by blast
  have "result = subnets @ (subnet_id # ids)
          \<and> ensured_subnets client tier public vpc_id tags (pair # pairs) (subnet_id # ids) w w'"
    using ids first unfolding pair r' t' by simp
  then show ?case by blast
qed

lemma ensured_subnets_length:
  assumes "ensured_subnets client tier public vpc_id tags pairs ids w w'"
  shows "length ids = length pairs"
  using assms
proof (induction pairs arbitrary: ids w)
  case Nil
  then show ?case by simp
next
  case (Cons pair pairs)
  obtain cidr az where pair: "pair = (cidr, az)" by (cases pair)
  from Cons.prems obtain subnet_id others t where
    "ids = subnet_id # others" "ensured_subnets client tier public vpc_id tags pairs others t w'"
    unfolding pair by (auto split: list.splits prod.splits sum.splits option.splits)
  with Cons.IH [of others t] show ?case by simp
qed

lemma default_returns_unit:
  assumes "retryable func default_max_attempts default_backoff_seconds w = (Inr r, w')"
  shows "r = Some ()"
  using retryable_default_returns [of func w] assms by (cases r) simp_all

section \<open>A run of the driver\<close>

lemmas in_memory_run_defs =
  main_def ensure_vpc_def ensure_internet_gateway_def ensure_subnet_def ensure_bucket_def
  ensure_vpc_body_def ensure_internet_gateway_body_def ensure_subnet_body_def
  ensure_bucket_body_def enable_versioning_def retryable_def retry_loop_unfold run_defs
  unwrapped_def returned_def default_max_attempts_def default_backoff_seconds_def
  in_memory_clients_def base_config_def fresh_def mk_tags_def slice_to_def new_id_def
  matching_def name_tag_def digit_def trace_of_def Let_def

lemma main_fresh_run_rows:
  "fst (main in_memory_clients base_config
          ((fresh [''eu-west-1a'', ''eu-west-1b'', ''eu-west-1c''], []), []))
     = Inr [(''VPC'', ''vpc-1''),
            (''InternetGateway'', ''igw-2''),
            (''PublicSubnets'', ''subnet-3, subnet-4''),
            (''PrivateSubnets'', ''subnet-5, subnet-6'')]"
  by (simp add: in_memory_run_defs)

text \<open>
  Claim C3, as the code has it. When \<open>main\<close> runs to its end, it has gone through
  these steps, each started in the world the one before left. \<open>ensure_vpc\<close> returned a
  VPC identifier after issuing VPC calls only. \<open>ensure_internet_gateway\<close> was called with
  that identifier and returned a gateway identifier. The availability zones were listed.
  For each (CIDR, zone) pair of the public tier, and then of the private tier, one
  \<open>ensure_subnet\<close> call was made with that VPC identifier and returned a subnet
  identifier, so there is one subnet identifier per pair. \<open>ensure_bucket\<close> and
  \<open>enable_versioning\<close> were called for the raw bucket and then for the curated bucket,
  which ends the run. Every call issued after \<open>ensure_vpc\<close> is a call for the internet
  gateway, the availability zones, the subnets or the buckets, and names that VPC wherever
  it names one: no call for a route table, NAT gateway, security group, instance profile,
  launch template, auto scaling group, secret or database is issued. The printed table
  holds the VPC identifier, the gateway identifier and the subnet identifiers of each
  tier.
\<close>

theorem main_threads_vpc_id:
  assumes "main clients config w = (Inr table, w')"
  shows "\<exists>vpc_id igw_id azs public_subnets private_subnets w1 w2 w3 w4 w5 w6 w7 w8.
      ensure_vpc (ec2 clients) (project_name config @ ''-'' @ project_environment config)
          (vpc_cidr config)
          [(''Project'', project_name config), (''Environment'', project_environment config)]
          default_max_attempts default_backoff_seconds w
        = (Inr (Some vpc_id), w1)
    \<and> extends_by vpc_call w w1
    \<and> ensure_internet_gateway (ec2 clients) vpc_id
          (project_name config @ ''-'' @ project_environment config @ ''-igw'')
          [(''Project'', project_name config), (''Environment'', project_environment config)]
          default_max_attempts default_backoff_seconds w1
        = (Inr (Some igw_id), w2)
    \<and> unwrapped (invoke (ec2 clients) (DescribeAvailabilityZones (project_region config))) w2
        = (Inr (Ids azs), w3)
    \<and> ensured_subnets (ec2 clients) ''public'' True vpc_id
          [(''Project'', project_name config), (''Environment'', project_environment config)]
          (zip (public_cidr_blocks config) (slice_to azs (vpc_az_count config)))
          public_subnets w3 w4
    \<and> ensured_subnets (ec2 clients) ''private'' False vpc_id
          [(''Project'', project_name config), (''Environment'', project_environment config)]
          (zip (private_cidr_blocks config) (slice_to azs (vpc_az_count config)))
          private_subnets w4 w5
    \<and> length public_subnets
        = length (zip (public_cidr_blocks config) (slice_to azs (vpc_az_count config)))
    \<and> length private_subnets
        = length (zip (private_cidr_blocks config) (slice_to azs (vpc_az_count config)))
    \<and> ensure_bucket (s3 clients) (raw_bucket config) (project_region config)
          default_max_attempts default_backoff_seconds w5
        = (Inr (Some ()), w6)
    \<and> unwrapped (enable_versioning (s3 clients) (raw_bucket config)) w6 = (Inr (), w7)
    \<and> ensure_bucket (s3 clients) (curated_bucket config) (project_region config)
          default_max_attempts default_backoff_seconds w7
        = (Inr (Some ()), w8)
    \<and> unwrapped (enable_versioning (s3 clients) (curated_bucket config)) w8
        = (Inr (), w')
    \<and> extends_by (downstream_call vpc_id) w1 w'
    \<and> table = [(''VPC'', vpc_id),
                (''InternetGateway'', igw_id),
                (''PublicSubnets'', join '', '' public_subnets),
                (''PrivateSubnets'', join '', '' private_subnets)]"
  using assms unfolding main_def Let_def
proof (elim and_then_InrE, goal_cases)
  case (1 r t vpc_id t1 r' t2' igw_id t2 zr t3' azs t3 publics' t4 privates' t5
          b1 t6 v1 t7 b2 t8 v2 t9)
  note step = 1
  from step(2) have r: "r = Some vpc_id" and t1: "t1 = t" by simp_all
  from step(4) have r': "r' = Some igw_id" and t2: "t2 = t2'" by simp_all
  from step(6) have zr: "zr = Ids azs" and t3: "t3 = t3'" by simp_all
  from step(13) have table: "table = [(''VPC'', vpc_id),
                (''InternetGateway'', igw_id),
                (''PublicSubnets'', join '', '' publics'),
                (''PrivateSubnets'', join '', '' privates')]" and w': "w' = t9"
    by simp_all
  from step(9) have b1: "b1 = Some ()"
    unfolding ensure_bucket_def by (rule default_returns_unit)
  from step(11) have b2: "b2 = Some ()"
    unfolding ensure_bucket_def by (rule default_returns_unit)
  have v1: "v1 = ()" and v2: "v2 = ()" by simp_all
  have vpc: "extends_by vpc_call w t"
    using ensure_vpc_grows step(1) by (rule grows_by_step)
  have e1: "extends_by (downstream_call vpc_id) t1 t2'"
    using ensure_internet_gateway_grows step(3) by (rule grows_by_step)
  have e2: "extends_by (downstream_call vpc_id) t2 t3'"
    using describe_availability_zones_grows step(5) by (rule grows_by_step)
  have e3: "extends_by (downstream_call vpc_id) t3 t4"
    using subnets_loop_grows step(7) by (rule grows_by_step)
  have e4: "extends_by (downstream_call vpc_id) t4 t5"
    using subnets_loop_grows step(8) by (rule grows_by_step)
  have e5: "extends_by (downstream_call vpc_id) t5 t6"
    using ensure_bucket_grows step(9) by (rule grows_by_step)
  have e6: "extends_by (downstream_call vpc_id) t6 t7"
    using enable_versioning_grows step(10) by (rule grows_by_step)
  have e7: "extends_by (downstream_call vpc_id) t7 t8"
    using ensure_bucket_grows step(11) by (rule grows_by_step)
  have e8: "extends_by (downstream_call vpc_id) t8 t9"
    using enable_versioning_grows step(12) by (rule grows_by_step)
  have downstream: "extends_by (downstream_call vpc_id) t w'"
    using e1 e2 e3 e4 e5 e6 e7 e8 unfolding t1 t2 t3 w'
    by (blast intro: extends_by_trans)
  from subnets_loop_ensured [OF step(7)] obtain publics where
    publics: "publics' = publics"
      "ensured_subnets (ec2 clients) ''public'' True vpc_id
          [(''Project'', project_name config), (''Environment'', project_environment config)]
          (zip (public_cidr_blocks config) (slice_to azs (vpc_az_count config)))
          publics t3 t4"
    by auto
  from subnets_loop_ensured [OF step(8)] obtain privates where
    privates: "privates' = privates"
      "ensured_subnets (ec2 clients) ''private'' False vpc_id
          [(''Project'', project_name config), (''Environment'', project_environment config)]
          (zip (private_cidr_blocks config) (slice_to azs (vpc_az_count config)))
          privates t4 t5"
    by auto
  note lengths = ensured_subnets_length [OF publics(2)] ensured_subnets_length [OF privates(2)]
  note steps = step(1) [unfolded r] step(3) [unfolded r' t1] step(5) [unfolded zr t2]
    publics(2) [unfolded t3] privates(2) step(9) [unfolded b1] step(10) [unfolded v1]
    step(11) [unfolded b2] step(12) [unfolded v2 w' [symmetric]]
  have "      ensure_vpc (ec2 clients) (project_name config @ ''-'' @ project_environment config)
          (vpc_cidr config)
          [(''Project'', project_name config), (''Environment'', project_environment config)]
          default_max_attempts default_backoff_seconds w
        = (Inr (Some vpc_id), t)
    \<and> extends_by vpc_call w t
    \<and> ensure_internet_gateway (ec2 clients) vpc_id
          (project_name config @ ''-'' @ project_environment config @ ''-igw'')
          [(''Project'', project_name config), (''Environment'', project_environment config)]
          default_max_attempts default_backoff_seconds t
        = (Inr (Some igw_id), t2')
    \<and> unwrapped (invoke (ec2 clients) (DescribeAvailabilityZones (project_region config))) t2'
        = (Inr (Ids azs), t3')
    \<and> ensured_subnets (ec2 clients) ''public'' True vpc_id
          [(''Project'', project_name config), (''Environment'', project_environment config)]
          (zip (public_cidr_blocks config) (slice_to azs (vpc_az_count config)))
          publics t3' t4
    \<and> ensured_subnets (ec2 clients) ''private'' False vpc_id
          [(''Project'', project_name config), (''Environment'', project_environment config)]
          (zip (private_cidr_blocks config) (slice_to azs (vpc_az_count config)))
          privates t4 t5
    \<and> length publics
        = length (zip (public_cidr_blocks config) (slice_to azs (vpc_az_count config)))
    \<and> length privates
        = length (zip (private_cidr_blocks config) (slice_to azs (vpc_az_count config)))
    \<and> ensure_bucket (s3 clients) (raw_bucket config) (project_region config)
          default_max_attempts default_backoff_seconds t5
        = (Inr (Some ()), t6)
    \<and> unwrapped (enable_versioning (s3 clients) (raw_bucket config)) t6 = (Inr (), t7)
    \<and> ensure_bucket (s3 clients) (curated_bucket config) (project_region config)
          default_max_attempts default_backoff_seconds t7
        = (Inr (Some ()), t8)
    \<and> unwrapped (enable_versioning (s3 clients) (curated_bucket config)) t8
        = (Inr (), w')
    \<and> extends_by (downstream_call vpc_id) t w'
    \<and> table = [(''VPC'', vpc_id),
                (''InternetGateway'', igw_id),
                (''PublicSubnets'', join '', '' publics),
                (''PrivateSubnets'', join '', '' privates)]"
    using steps vpc downstream lengths table unfolding publics(1) privates(1)
    by (intro conjI)
  then show ?case by blast
qed

text \<open>
  The theorem at work on the run of \<open>main\<close> from an empty in-memory provider with three
  availability zones.
\<close>

theorem main_threads_vpc_id_witness:
  "\<exists>vpc_id igw_id azs public_subnets private_subnets w1 w2 w3 w4 w5 w6 w7 w8.
      ensure_vpc (ec2 in_memory_clients) (project_name base_config @ ''-'' @ project_environment base_config)
          (vpc_cidr base_config)
          [(''Project'', project_name base_config), (''Environment'', project_environment base_config)]
          default_max_attempts default_backoff_seconds 
          ((fresh [''eu-west-1a'', ''eu-west-1b'', ''eu-west-1c''], []), [])
        = (Inr (Some vpc_id), w1)
    \<and> extends_by vpc_call 
          ((fresh [''eu-west-1a'', ''eu-west-1b'', ''eu-west-1c''], []), []) w1
    \<and> ensure_internet_gateway (ec2 in_memory_clients) vpc_id
          (project_name base_config @ ''-'' @ project_environment base_config @ ''-igw'')
          [(''Project'', project_name base_config), (''Environment'', project_environment base_config)]
          default_max_attempts default_backoff_seconds w1
        = (Inr (Some igw_id), w2)
    \<and> unwrapped (invoke (ec2 in_memory_clients) (DescribeAvailabilityZones (project_region base_config))) w2
        = (Inr (Ids azs), w3)
    \<and> ensured_subnets (ec2 in_memory_clients) ''public'' True vpc_id
          [(''Project'', project_name base_config), (''Environment'', project_environment base_config)]
          (zip (public_cidr_blocks base_config) (slice_to azs (vpc_az_count base_config)))
          public_subnets w3 w4
    \<and> ensured_subnets (ec2 in_memory_clients) ''private'' False vpc_id
          [(''Project'', project_name base_config), (''Environment'', project_environment base_config)]
          (zip (private_cidr_blocks base_config) (slice_to azs (vpc_az_count base_config)))
          private_subnets w4 w5
    \<and> length public_subnets
        = length (zip (public_cidr_blocks base_config) (slice_to azs (vpc_az_count base_config)))
    \<and> length private_subnets
        = length (zip (private_cidr_blocks base_config) (slice_to azs (vpc_az_count base_config)))
    \<and> ensure_bucket (s3 in_memory_clients) (raw_bucket base_config) (project_region base_config)
          default_max_attempts default_backoff_seconds w5
        = (Inr (Some ()), w6)
    \<and> unwrapped (enable_versioning (s3 in_memory_clients) (raw_bucket base_config)) w6 = (Inr (), w7)
    \<and> ensure_bucket (s3 in_memory_clients) (curated_bucket base_config) (project_region base_config)
          default_max_attempts default_backoff_seconds w7
        = (Inr (Some ()), w8)
    \<and> unwrapped (enable_versioning (s3 in_memory_clients) (curated_bucket base_config)) w8
        = (Inr (), 
          (snd (main in_memory_clients base_config
                  ((fresh [''eu-west-1a'', ''eu-west-1b'', ''eu-west-1c''], []), []))))
    \<and> extends_by (downstream_call vpc_id) w1 
          (snd (main in_memory_clients base_config
                  ((fresh [''eu-west-1a'', ''eu-west-1b'', ''eu-west-1c''], []), [])))
    \<and> [(''VPC'', ''vpc-1''),
         (''InternetGateway'', ''igw-2''),
         (''PublicSubnets'', ''subnet-3, subnet-4''),
         (''PrivateSubnets'', ''subnet-5, subnet-6'')]
        = [(''VPC'', vpc_id),
                (''InternetGateway'', igw_id),
                (''PublicSubnets'', join '', '' public_subnets),
                (''PrivateSubnets'', join '', '' private_subnets)]"
proof -
  have run: "main in_memory_clients base_config
               ((fresh [''eu-west-1a'', ''eu-west-1b'', ''eu-west-1c''], []), [])
             = (Inr [(''VPC'', ''vpc-1''),
                     (''InternetGateway'', ''igw-2''),
                     (''PublicSubnets'', ''subnet-3, subnet-4''),
                     (''PrivateSubnets'', ''subnet-5, subnet-6'')],
                snd (main in_memory_clients base_config
                       ((fresh [''eu-west-1a'', ''eu-west-1b'', ''eu-west-1c''], []), [])))"
    using main_fresh_run_rows by (simp add: prod_eq_iff)
  show ?thesis by (rule main_threads_vpc_id [OF run])
qed

text \<open>
  Claim C3 as stated fails. Run from an empty provider with one VPC, two public and two
  private subnets and two buckets configured, \<open>main\<close> reports a VPC, an internet
  gateway and four subnets, and the calls it issues are the twenty-four below: there is no
  call for a security group, a launch template, an auto scaling group or a database, and
  no identifier for any of them.
\<close>

theorem main_fresh_run_counterexample:
  "fst (main in_memory_clients base_config
          ((fresh [''eu-west-1a'', ''eu-west-1b'', ''eu-west-1c''], []), []))
     = Inr [(''VPC'', ''vpc-1''),
            (''InternetGateway'', ''igw-2''),
            (''PublicSubnets'', ''subnet-3, subnet-4''),
            (''PrivateSubnets'', ''subnet-5, subnet-6'')]
   \<and> map fst (trace_of (snd (main in_memory_clients base_config
          ((fresh [''eu-west-1a'', ''eu-west-1b'', ''eu-west-1c''], []), []))))
     = [DescribeVpcs ''cda-dev'',
        CreateVpc ''10.0.0.0/16''
          [(''Name'', ''cda-dev''), (''Project'', ''cda''), (''Environment'', ''dev'')],
        ModifyVpcAttribute ''vpc-1'' ''EnableDnsSupport'' True,
        ModifyVpcAttribute ''vpc-1'' ''EnableDnsHostnames'' True,
        DescribeInternetGateways ''vpc-1'',
        CreateInternetGateway
          [(''Name'', ''cda-dev-igw''), (''Project'', ''cda''), (''Environment'', ''dev'')],
        AttachInternetGateway ''igw-2'' ''vpc-1'',
        DescribeAvailabilityZones ''eu-west-1'',
        DescribeSubnets ''vpc-1'' ''10.0.0.0/24'',
        CreateSubnet ''vpc-1'' ''10.0.0.0/24'' ''eu-west-1a''
          [(''Name'', ''public-eu-west-1a''), (''Project'', ''cda''), (''Environment'', ''dev''),
           (''Tier'', ''public'')],
        ModifySubnetAttribute ''subnet-3'' True,
        DescribeSubnets ''vpc-1'' ''10.0.1.0/24'',
        CreateSubnet ''vpc-1'' ''10.0.1.0/24'' ''eu-west-1b''
          [(''Name'', ''public-eu-west-1b''), (''Project'', ''cda''), (''Environment'', ''dev''),
           (''Tier'', ''public'')],
        ModifySubnetAttribute ''subnet-4'' True,
        DescribeSubnets ''vpc-1'' ''10.0.10.0/24'',
        CreateSubnet ''vpc-1'' ''10.0.10.0/24'' ''eu-west-1a''
          [(''Name'', ''private-eu-west-1a''), (''Project'', ''cda''), (''Environment'', ''dev''),
           (''Tier'', ''private'')],
        DescribeSubnets ''vpc-1'' ''10.0.11.0/24'',
        CreateSubnet ''vpc-1'' ''10.0.11.0/24'' ''eu-west-1b''
          [(''Name'', ''private-eu-west-1b''), (''Project'', ''cda''), (''Environment'', ''dev''),
           (''Tier'', ''private'')],
        HeadBucket ''cda-raw'',
        CreateBucket ''cda-raw'' (Some ''eu-west-1''),
        PutBucketVersioning ''cda-raw'' ''Enabled'',
        HeadBucket ''cda-curated'',
        CreateBucket ''cda-curated'' (Some ''eu-west-1''),
        PutBucketVersioning ''cda-curated'' ''Enabled'']"
  by (simp add: in_memory_run_defs)


end
